theory Spec2Isabelle
  imports Complex_Main
begin

section \<open>Structure Aggregator\<close>

text \<open>
  The aggregator lives in the Python backend (\<^verbatim>\<open>structure_pricer.py\<close>), which is not among
  the front-end sources. Its definitions below follow section 4.3 of the specification.
  Decimals are exact rationals.
\<close>

text \<open>Modelled from the spec: the tagged value of section 9, a decimal or the
  "unavailable" sentinel, used for every numeric field of LegMarketData and
  StructureMarketData (the Python model classes are missing).\<close>

datatype quote = Value rat | Unavailable

text \<open>Modelled from the spec: LegMarketData of section 3 (the Python class is missing).\<close>

record LegMarketData =
  lmd_bid :: quote
  lmd_offer :: quote
  lmd_bid_size :: quote
  lmd_offer_size :: quote

text \<open>Modelled from the spec: a contributing leg of the aggregator's input, its signed
  ratio (positive = long, negative = short) with its LegMarketData (the Python OptionLeg
  class is missing; only the ratio matters to the sums).\<close>

type_synonym quoted_leg = "rat \<times> LegMarketData"

text \<open>Modelled from the spec: ratio-weighting of a quote, \<open>\<minus>ratio \<times> leg.side\<close>;
  an unavailable quote stays unavailable (the aggregator's arithmetic is missing).\<close>

fun weigh :: "rat \<Rightarrow> quote \<Rightarrow> quote" where
  "weigh c (Value v) = Value (c * v)"
| "weigh c Unavailable = Unavailable"

text \<open>Modelled from the spec: the sum of two terms of a side; a side with an unavailable
  term is unavailable, never a partial number (the aggregator's arithmetic is missing).\<close>

fun qadd :: "quote \<Rightarrow> quote \<Rightarrow> quote" where
  "qadd (Value a) (Value b) = Value (a + b)"
| "qadd _ _ = Unavailable"

text \<open>Modelled from the spec: the sum over the legs of the terms of one side, 0 for no leg
  (the aggregator's summation is missing).\<close>

fun sum_quotes :: "quote list \<Rightarrow> quote" where
  "sum_quotes [] = Value 0"
| "sum_quotes (q # qs) = qadd q (sum_quotes qs)"

text \<open>Modelled from the spec: the leg quote that the structure bid needs, offer for a leg
  with positive ratio and bid otherwise (the function computing the structure bid is
  missing).\<close>

definition bid_side_quote :: "quoted_leg \<Rightarrow> quote" where
  "bid_side_quote l = (if fst l > 0 then lmd_offer (snd l) else lmd_bid (snd l))"

text \<open>Modelled from the spec: the leg quote that the structure offer needs, "the mirror
  using the opposite fill assumption per leg" (the function computing the structure offer is
  missing).\<close>

definition offer_side_quote :: "quoted_leg \<Rightarrow> quote" where
  "offer_side_quote l = (if fst l > 0 then lmd_bid (snd l) else lmd_offer (snd l))"

text \<open>Modelled from the spec: structure bid = sum over legs of
  \<open>(ratio > 0 ? \<minus>ratio \<times> leg.offer : \<minus>ratio \<times> leg.bid)\<close> (the function is missing).\<close>

definition structure_bid :: "quoted_leg list \<Rightarrow> quote" where
  "structure_bid legs = sum_quotes (map (\<lambda>l. weigh (- fst l) (bid_side_quote l)) legs)"

text \<open>Modelled from the spec: structure offer, the mirror sum with the opposite fill per
  leg (the function is missing).\<close>

definition structure_offer :: "quoted_leg list \<Rightarrow> quote" where
  "structure_offer legs = sum_quotes (map (\<lambda>l. weigh (- fst l) (offer_side_quote l)) legs)"

text \<open>Modelled from the spec: structure mid = midpoint of bid and offer when both exist
  (the function is missing).\<close>

definition structure_mid :: "quoted_leg list \<Rightarrow> quote" where
  "structure_mid legs =
     (case (structure_bid legs, structure_offer legs) of
        (Value b, Value a) \<Rightarrow> Value ((b + a) / 2)
      | _ \<Rightarrow> Unavailable)"

text \<open>Notions for the statements about the aggregator. Both quotes of a leg are
  available.\<close>

definition leg_available :: "quoted_leg \<Rightarrow> bool" where
  "leg_available l = (lmd_bid (snd l) \<noteq> Unavailable \<and> lmd_offer (snd l) \<noteq> Unavailable)"

text \<open>Both quotes of a leg are available and the leg's own market is not crossed.\<close>

definition leg_uncrossed :: "quoted_leg \<Rightarrow> bool" where
  "leg_uncrossed l =
     (case (lmd_bid (snd l), lmd_offer (snd l)) of
        (Value b, Value a) \<Rightarrow> b \<le> a
      | _ \<Rightarrow> False)"

text \<open>Neither quote of a leg is available.\<close>

definition leg_unavailable :: "quoted_leg \<Rightarrow> bool" where
  "leg_unavailable l = (lmd_bid (snd l) = Unavailable \<and> lmd_offer (snd l) = Unavailable)"

text \<open>A leg with the given ratio, bid and offer, and no sizes (used in the examples).\<close>

definition mk_leg :: "rat \<Rightarrow> quote \<Rightarrow> quote \<Rightarrow> quoted_leg" where
  "mk_leg r b a = (r, \<lparr>lmd_bid = b, lmd_offer = a, lmd_bid_size = Unavailable,
     lmd_offer_size = Unavailable\<rparr>)"

section \<open>JavaScript numbers and strings\<close>

text \<open>
  The front end is TypeScript. A JavaScript number is an IEEE double; the model keeps the
  exact decimal value instead: \<open>Fin m k\<close> stands for \<open>m / 10^k\<close>, beside the two
  infinities and NaN. Binary rounding, overflow to infinity and the sign of zero (which no
  operation used here can observe) are not modelled. Operations read a \<open>Fin m k\<close> through
  its value, so \<open>Fin 150 2\<close> and \<open>Fin 15 1\<close> behave alike; parsing and arithmetic return the
  shortest form. A JavaScript string is a sequence of UTF-16 code units; the model's strings
  are sequences of 8-bit characters, the same thing for ASCII text.
\<close>

datatype jsnum = Fin int nat | PInf | NInf | NaN

fun norm_pair :: "int \<Rightarrow> nat \<Rightarrow> int \<times> nat" where
  "norm_pair m 0 = (m, 0)"
| "norm_pair m (Suc k) = (if m mod 10 = 0 then norm_pair (m div 10) k else (m, Suc k))"

definition norm_dec :: "int \<Rightarrow> nat \<Rightarrow> jsnum" where
  "norm_dec m k = (case norm_pair m k of (m', k') \<Rightarrow> Fin m' k')"

text \<open>Unary minus, \<^verbatim>\<open>Math.abs\<close>, \<^verbatim>\<open>x > 0\<close>, \<^verbatim>\<open>x === 0\<close> and truthiness of a number.\<close>

fun num_neg :: "jsnum \<Rightarrow> jsnum" where
  "num_neg (Fin m k) = Fin (- m) k"
| "num_neg PInf = NInf"
| "num_neg NInf = PInf"
| "num_neg NaN = NaN"

fun num_abs :: "jsnum \<Rightarrow> jsnum" where
  "num_abs (Fin m k) = Fin \<bar>m\<bar> k"
| "num_abs PInf = PInf"
| "num_abs NInf = PInf"
| "num_abs NaN = NaN"

fun num_gt0 :: "jsnum \<Rightarrow> bool" where
  "num_gt0 (Fin m k) = (m > 0)"
| "num_gt0 PInf = True"
| "num_gt0 NInf = False"
| "num_gt0 NaN = False"

fun num_lt0 :: "jsnum \<Rightarrow> bool" where
  "num_lt0 (Fin m k) = (m < 0)"
| "num_lt0 PInf = False"
| "num_lt0 NInf = True"
| "num_lt0 NaN = False"

fun num_is0 :: "jsnum \<Rightarrow> bool" where
  "num_is0 (Fin m k) = (m = 0)"
| "num_is0 _ = False"

fun truthy :: "jsnum \<Rightarrow> bool" where
  "truthy (Fin m k) = (m \<noteq> 0)"
| "truthy PInf = True"
| "truthy NInf = True"
| "truthy NaN = False"

text \<open>Addition and subtraction; the sum of opposite infinities is NaN.\<close>

fun num_add :: "jsnum \<Rightarrow> jsnum \<Rightarrow> jsnum" where
  "num_add (Fin m k) (Fin n j) =
     norm_dec (m * 10 ^ (max k j - k) + n * 10 ^ (max k j - j)) (max k j)"
| "num_add NaN _ = NaN"
| "num_add _ NaN = NaN"
| "num_add PInf NInf = NaN"
| "num_add NInf PInf = NaN"
| "num_add PInf _ = PInf"
| "num_add _ PInf = PInf"
| "num_add NInf _ = NInf"
| "num_add _ NInf = NInf"

definition num_sub :: "jsnum \<Rightarrow> jsnum \<Rightarrow> jsnum" where
  "num_sub a b = num_add a (num_neg b)"

text \<open>\<^verbatim>\<open>x || d\<close> on numbers: the default replaces 0 and NaN.\<close>

definition num_or :: "jsnum \<Rightarrow> jsnum \<Rightarrow> jsnum" where
  "num_or x d = (if truthy x then x else d)"

text \<open>\<^verbatim>\<open>x || undefined\<close>: a number that is 0 or NaN becomes an absent field.\<close>

definition num_or_undefined :: "jsnum \<Rightarrow> jsnum option" where
  "num_or_undefined x = (if truthy x then Some x else None)"

subsection \<open>Digits\<close>

fun index_of :: "'a \<Rightarrow> 'a list \<Rightarrow> nat option" where
  "index_of c [] = None"
| "index_of c (x # xs) =
     (if c = x then Some 0 else (case index_of c xs of None \<Rightarrow> None | Some i \<Rightarrow> Some (Suc i)))"

definition digit_char :: "nat \<Rightarrow> char" where
  "digit_char d = ''0123456789'' ! d"

definition isDigit :: "char \<Rightarrow> bool" where
  "isDigit c = (c \<in> set ''0123456789'')"

definition digit_val :: "char \<Rightarrow> nat" where
  "digit_val c = (case index_of c ''0123456789'' of None \<Rightarrow> 0 | Some v \<Rightarrow> v)"

fun show_nat :: "nat \<Rightarrow> string" where
  "show_nat n = (if n < 10 then [digit_char n] else show_nat (n div 10) @ [digit_char (n mod 10)])"

declare show_nat.simps [simp del]

definition digits_val :: "string \<Rightarrow> nat" where
  "digits_val ds = foldl (\<lambda>a c. 10 * a + digit_val c) 0 ds"

subsection \<open>Number to string\<close>

text \<open>
  The digits of \<open>m / 10^k\<close> in positional notation: at least one digit before the point,
  exactly \<open>k\<close> after it, no point when \<open>k = 0\<close>.
\<close>

definition pos_digits :: "nat \<Rightarrow> nat \<Rightarrow> string" where
  "pos_digits m k =
     (let ds = show_nat m;
          p = replicate (Suc k - length ds) (CHR ''0'') @ ds;
          n = length p - k
      in take n p @ (if k = 0 then [] else CHR ''.'' # drop n p))"

text \<open>
  \<^verbatim>\<open>String(x)\<close> and template interpolation of a number. ECMAScript prints the shortest
  decimal that reads back to the same double; for an exact decimal that is the decimal
  itself without trailing zeros. ECMAScript switches to exponent notation for magnitudes
  of \<open>10^21\<close> and above or below \<open>10^-6\<close> (which \<^verbatim>\<open>parseFloat\<close> reads back to the same
  value); the model prints positional notation throughout.
\<close>

fun jsString :: "jsnum \<Rightarrow> string" where
  "jsString NaN = ''NaN''"
| "jsString PInf = ''Infinity''"
| "jsString NInf = ''-Infinity''"
| "jsString (Fin m k) =
     (case norm_pair m k of
        (m', k') \<Rightarrow> (if m' < 0 then ''-'' else []) @ pos_digits (nat \<bar>m'\<bar>) k')"

text \<open>
  \<^verbatim>\<open>x.toFixed(2)\<close>: the magnitude is rounded to the nearest hundredth, the larger one on
  a tie; the sign of a negative \<open>x\<close> is kept (\<^verbatim>\<open>(-0.001).toFixed(2)\<close> is \<^verbatim>\<open>-0.00\<close>); from
  \<open>10^21\<close> on, and for NaN and the infinities, the result is \<^verbatim>\<open>String(x)\<close>.
\<close>

fun toFixed2 :: "jsnum \<Rightarrow> string" where
  "toFixed2 (Fin m k) =
     (if \<bar>m\<bar> \<ge> 10 ^ 21 * 10 ^ k then jsString (Fin m k)
      else (if m < 0 then ''-'' else [])
           @ pos_digits ((200 * nat \<bar>m\<bar> + 10 ^ k) div (2 * 10 ^ k)) 2)"
| "toFixed2 x = jsString x"

subsection \<open>String to number\<close>

text \<open>ASCII white space and line terminators; the Unicode ones are outside the model.\<close>

definition isWhite :: "char \<Rightarrow> bool" where
  "isWhite c = (c \<in> set [CHR '' '', CHR 0x09, CHR 0x0A, CHR 0x0B, CHR 0x0C, CHR 0x0D])"

definition trimStart :: "string \<Rightarrow> string" where
  "trimStart s = dropWhile isWhite s"

definition trim :: "string \<Rightarrow> string" where
  "trim s = rev (dropWhile isWhite (rev (dropWhile isWhite s)))"

text \<open>An optional sign: whether it is a minus, and the rest.\<close>

definition split_sign :: "string \<Rightarrow> bool \<times> string" where
  "split_sign s =
     (case s of
        [] \<Rightarrow> (False, s)
      | c # t \<Rightarrow> if c = CHR ''-'' then (True, t) else if c = CHR ''+'' then (False, t)
                 else (False, s))"

text \<open>An exponent part \<^verbatim>\<open>e[+-]digits\<close> at the head of the string, and the rest; exponent 0
  and the whole string when there is none.\<close>

definition parse_exponent :: "string \<Rightarrow> int \<times> string" where
  "parse_exponent s =
     (case s of
        [] \<Rightarrow> (0, s)
      | c # t \<Rightarrow>
          if c = CHR ''e'' \<or> c = CHR ''E'' then
            (case split_sign t of
               (neg, u) \<Rightarrow>
                 (let ed = takeWhile isDigit u in
                  if ed = [] then (0, s)
                  else ((if neg then - int (digits_val ed) else int (digits_val ed)),
                        dropWhile isDigit u)))
          else (0, s))"

text \<open>\<open>m \<times> 10^(e \<minus> k)\<close> in shortest form.\<close>

definition scale10 :: "int \<Rightarrow> nat \<Rightarrow> int \<Rightarrow> jsnum" where
  "scale10 m k e =
     (if e \<le> int k then norm_dec m (nat (int k - e))
      else norm_dec (m * 10 ^ nat (e - int k)) 0)"

text \<open>Digits with an optional fraction (\<^verbatim>\<open>12\<close>, \<^verbatim>\<open>12.\<close>, \<^verbatim>\<open>12.5\<close>, \<^verbatim>\<open>.5\<close>) at the head of the
  string: all digits read as one integer, the number of fraction digits, and the rest.\<close>

definition parse_unsigned :: "string \<Rightarrow> (int \<times> nat \<times> string) option" where
  "parse_unsigned s =
     (let ip = takeWhile isDigit s; r1 = dropWhile isDigit s in
      case r1 of
        [] \<Rightarrow> if ip = [] then None else Some (int (digits_val ip), 0, [])
      | c # t \<Rightarrow>
          if c = CHR ''.'' then
            (let fp = takeWhile isDigit t in
             if ip = [] \<and> fp = [] then None
             else Some (int (digits_val (ip @ fp)), length fp, dropWhile isDigit t))
          else if ip = [] then None
          else Some (int (digits_val ip), 0, r1))"

text \<open>The longest prefix that is a signed decimal literal (\<^verbatim>\<open>StrDecimalLiteral\<close>), with
  its value and the rest of the string.\<close>

definition parse_dec_literal :: "string \<Rightarrow> (jsnum \<times> string) option" where
  "parse_dec_literal s =
     (case split_sign s of
        (neg, u) \<Rightarrow>
          if take 8 u = ''Infinity'' then Some (if neg then NInf else PInf, drop 8 u)
          else
            (case parse_unsigned u of
               None \<Rightarrow> None
             | Some (m, k, r) \<Rightarrow>
                 (case parse_exponent r of
                    (e, r') \<Rightarrow> Some (scale10 (if neg then - m else m) k e, r'))))"

text \<open>\<^verbatim>\<open>parseFloat(s)\<close>: leading white space is skipped, the longest decimal literal is
  read, anything after it is ignored; NaN when there is no literal.\<close>

definition parseFloat :: "string \<Rightarrow> jsnum" where
  "parseFloat s =
     (case parse_dec_literal (trimStart s) of None \<Rightarrow> NaN | Some (x, r) \<Rightarrow> x)"

text \<open>The value of a digit or letter in a radix up to 36.\<close>

definition radix_val :: "char \<Rightarrow> nat option" where
  "radix_val c =
     (case index_of c ''0123456789abcdefghijklmnopqrstuvwxyz'' of
        Some v \<Rightarrow> Some v
      | None \<Rightarrow>
          (case index_of c ''ABCDEFGHIJKLMNOPQRSTUVWXYZ'' of
             Some v \<Rightarrow> Some (10 + v)
           | None \<Rightarrow> None))"

definition isRadixDigit :: "nat \<Rightarrow> char \<Rightarrow> bool" where
  "isRadixDigit r c = (case radix_val c of None \<Rightarrow> False | Some v \<Rightarrow> v < r)"

definition radix_digits_val :: "nat \<Rightarrow> string \<Rightarrow> nat" where
  "radix_digits_val r ds =
     foldl (\<lambda>a c. r * a + (case radix_val c of None \<Rightarrow> 0 | Some v \<Rightarrow> v)) 0 ds"

definition hex_prefixed :: "string \<Rightarrow> bool" where
  "hex_prefixed s = (take 2 s = ''0x'' \<or> take 2 s = ''0X'')"

text \<open>\<^verbatim>\<open>parseInt(s)\<close> with no radix argument: leading white space, a sign, then hexadecimal
  digits after \<^verbatim>\<open>0x\<close> and decimal digits otherwise; NaN when no digit follows.\<close>

definition parseInt :: "string \<Rightarrow> jsnum" where
  "parseInt s =
     (case split_sign (trimStart s) of
        (neg, u) \<Rightarrow>
          (let r = (if hex_prefixed u then 16 else 10);
               v = (if hex_prefixed u then drop 2 u else u);
               ds = takeWhile (isRadixDigit r) v
           in if ds = [] then NaN
              else Fin (if neg then - int (radix_digits_val r ds) else int (radix_digits_val r ds)) 0))"

text \<open>A whole string that is a literal \<^verbatim>\<open>0x..\<close>, \<^verbatim>\<open>0o..\<close> or \<^verbatim>\<open>0b..\<close>.\<close>

definition parse_nondecimal :: "string \<Rightarrow> nat option" where
  "parse_nondecimal s =
     (let r = (if hex_prefixed s then 16
               else if take 2 s = ''0o'' \<or> take 2 s = ''0O'' then 8
               else if take 2 s = ''0b'' \<or> take 2 s = ''0B'' then 2
               else 0);
          ds = drop 2 s
      in if r \<noteq> 0 \<and> ds \<noteq> [] \<and> list_all (isRadixDigit r) ds
         then Some (radix_digits_val r ds) else None)"

text \<open>\<^verbatim>\<open>Number(s)\<close> on a string: white space is trimmed on both sides, the empty string is
  0, and the whole rest must be one numeric literal.\<close>

definition stringToNumber :: "string \<Rightarrow> jsnum" where
  "stringToNumber s =
     (let t = trim s in
      if t = [] then Fin 0 0
      else
        (case parse_nondecimal t of
           Some n \<Rightarrow> Fin (int n) 0
         | None \<Rightarrow>
             (case parse_dec_literal t of
                None \<Rightarrow> NaN
              | Some (x, r) \<Rightarrow> if r = [] then x else NaN)))"

text \<open>A field typed \<^verbatim>\<open>number | string\<close>.\<close>

datatype numstr = N jsnum | S string

text \<open>\<^verbatim>\<open>Number(v)\<close>.\<close>

fun toNumber :: "numstr \<Rightarrow> jsnum" where
  "toNumber (N x) = x"
| "toNumber (S s) = stringToNumber s"

subsection \<open>Other string operations\<close>

text \<open>\<^verbatim>\<open>s.startsWith(p)\<close>, and case conversion and character replacement on ASCII.\<close>

definition startsWith :: "string \<Rightarrow> string \<Rightarrow> bool" where
  "startsWith s p = (take (length p) s = p)"

definition lower_char :: "char \<Rightarrow> char" where
  "lower_char c =
     (case index_of c ''ABCDEFGHIJKLMNOPQRSTUVWXYZ'' of
        None \<Rightarrow> c
      | Some i \<Rightarrow> ''abcdefghijklmnopqrstuvwxyz'' ! i)"

definition upper_char :: "char \<Rightarrow> char" where
  "upper_char c =
     (case index_of c ''abcdefghijklmnopqrstuvwxyz'' of
        None \<Rightarrow> c
      | Some i \<Rightarrow> ''ABCDEFGHIJKLMNOPQRSTUVWXYZ'' ! i)"

definition toLowerCase :: "string \<Rightarrow> string" where
  "toLowerCase s = map lower_char s"

definition toUpperCase :: "string \<Rightarrow> string" where
  "toUpperCase s = map upper_char s"

definition replaceAll :: "char \<Rightarrow> char \<Rightarrow> string \<Rightarrow> string" where
  "replaceAll a b s = map (\<lambda>c. if c = a then b else c) s"

text \<open>\<^verbatim>\<open>s || d\<close> on strings: the default replaces the empty string.\<close>

definition str_or :: "string \<Rightarrow> string \<Rightarrow> string" where
  "str_or s d = (if s = [] then d else s)"

section \<open>Front-end data (types/index.ts)\<close>

text \<open>
  Interfaces are records. Several interfaces use the same field names; the rows of the
  pricing table and the pricer state keep the source's names, the other records carry a
  prefix. A field that may be \<^verbatim>\<open>null\<close> or absent is an option.
\<close>

record LegRow =
  leg :: string
  expiry :: string
  strike :: numstr
  type :: string
  ratio :: numstr
  bid_size :: string
  bid :: string
  mid :: string
  offer :: string
  offer_size :: string

record OrderHeader =
  h_underlying :: string
  h_structure_name :: string
  h_stock_ref :: jsnum
  h_stock_price :: jsnum
  h_delta :: jsnum

record BrokerQuote =
  broker_price :: jsnum
  quote_side :: string
  screen_mid :: "jsnum option"
  edge :: "jsnum option"

record CurrentStructure =
  cs_underlying :: string
  cs_structure_name :: string
  cs_structure_detail :: string
  cs_bid :: "jsnum option"
  cs_mid :: "jsnum option"
  cs_offer :: "jsnum option"
  cs_bid_size :: "jsnum option"
  cs_offer_size :: "jsnum option"
  cs_multiplier :: jsnum

record PriceResponse =
  table_data :: "LegRow list"
  res_header :: OrderHeader
  broker_quote :: "BrokerQuote option"
  current_structure :: CurrentStructure

record ParsedLeg =
  pl_underlying :: string
  pl_expiry :: string
  pl_strike :: jsnum
  pl_option_type :: string
  pl_side :: string
  pl_quantity :: jsnum
  pl_ratio :: jsnum

record ParseResponse =
  p_underlying :: string
  p_structure_name :: string
  p_legs :: "ParsedLeg list"
  p_stock_ref :: jsnum
  p_delta :: jsnum
  p_price :: jsnum
  p_quote_side :: string
  p_quantity :: jsnum
  p_raw_text :: string

text \<open>A leg of the request that \<^verbatim>\<open>repriceFromTable\<close> sends, and the request.\<close>

record TableLeg =
  l_expiry :: string
  l_strike :: jsnum
  l_option_type :: string
  l_side :: string
  l_quantity :: jsnum
  l_ratio :: jsnum

record PriceRequest =
  q_underlying :: string
  q_structure_name :: string
  q_legs :: "TableLeg list"
  q_stock_ref :: jsnum
  q_delta :: jsnum
  q_price :: jsnum
  q_quote_side :: string
  q_quantity :: jsnum

record BlotterOrder =
  o_id :: string
  o_added_time :: string
  o_underlying :: string
  o_structure :: string
  o_bid :: string
  o_mid :: string
  o_offer :: string
  o_bid_size :: string
  o_offer_size :: string
  o_side :: string
  o_size :: string
  o_traded :: string
  o_bought_sold :: string
  o_traded_price :: string
  o_initiator :: string
  o_pnl :: string
  o_multiplier :: jsnum
  rc_table_data :: "LegRow list option"
  rc_underlying :: "string option"
  rc_structure_type :: "string option"
  rc_stock_ref :: "jsnum option"
  rc_delta :: "jsnum option"
  rc_broker_price :: "jsnum option"
  rc_quote_side :: "string option"
  rc_quantity :: "jsnum option"
  rc_current_structure :: "CurrentStructure option"

section \<open>The pricer store (stores/pricerStore.ts)\<close>

record PricerState =
  orderText :: string
  tableData :: "LegRow list"
  header :: "OrderHeader option"
  brokerQuote :: "BrokerQuote option"
  currentStructure :: "CurrentStructure option"
  parseError :: string
  tableError :: string
  underlying :: string
  structureType :: string
  stockRef :: string
  delta :: string
  brokerPrice :: string
  quoteSide :: string
  quantity :: string
  loading :: bool

text \<open>
  A rejected promise of the REST client, with the message that the store's \<^verbatim>\<open>catch\<close>
  reads (\<^verbatim>\<open>e.message\<close> or \<^verbatim>\<open>String(e)\<close>), or the response. The three calls of the
  client are parameters of the actions that await them.
\<close>

type_synonym 'a outcome = "string + 'a"

text \<open>An exception that leaves an action before it writes the store.\<close>

datatype js_error = TypeError

definition STRUCTURE_TEMPLATES :: "(string \<times> (string \<times> jsnum) list) list" where
  "STRUCTURE_TEMPLATES =
    [(''call'', [(''C'', Fin 1 0)]),
     (''put'', [(''P'', Fin 1 0)]),
     (''put_spread'', [(''P'', Fin 1 0), (''P'', Fin (- 1) 0)]),
     (''call_spread'', [(''C'', Fin 1 0), (''C'', Fin (- 1) 0)]),
     (''risk_reversal'', [(''P'', Fin (- 1) 0), (''C'', Fin 1 0)]),
     (''straddle'', [(''C'', Fin 1 0), (''P'', Fin 1 0)]),
     (''strangle'', [(''P'', Fin 1 0), (''C'', Fin 1 0)]),
     (''butterfly'', [(''C'', Fin 1 0), (''C'', Fin (- 2) 0), (''C'', Fin 1 0)]),
     (''put_fly'', [(''P'', Fin 1 0), (''P'', Fin (- 2) 0), (''P'', Fin 1 0)]),
     (''call_fly'', [(''C'', Fin 1 0), (''C'', Fin (- 2) 0), (''C'', Fin 1 0)]),
     (''iron_butterfly'',
        [(''P'', Fin 1 0), (''P'', Fin (- 1) 0), (''C'', Fin (- 1) 0), (''C'', Fin 1 0)]),
     (''iron_condor'',
        [(''P'', Fin 1 0), (''P'', Fin (- 1) 0), (''C'', Fin (- 1) 0), (''C'', Fin 1 0)]),
     (''put_condor'',
        [(''P'', Fin 1 0), (''P'', Fin (- 1) 0), (''P'', Fin (- 1) 0), (''P'', Fin 1 0)]),
     (''call_condor'',
        [(''C'', Fin 1 0), (''C'', Fin (- 1) 0), (''C'', Fin (- 1) 0), (''C'', Fin 1 0)]),
     (''collar'', [(''P'', Fin 1 0), (''C'', Fin (- 1) 0)]),
     (''call_spread_collar'', [(''P'', Fin 1 0), (''C'', Fin (- 1) 0), (''C'', Fin 1 0)]),
     (''put_spread_collar'', [(''P'', Fin (- 1) 0), (''P'', Fin 1 0), (''C'', Fin (- 1) 0)]),
     (''put_stupid'', [(''P'', Fin 1 0), (''P'', Fin 1 0)]),
     (''call_stupid'', [(''C'', Fin 1 0), (''C'', Fin 1 0)])]"

text \<open>
  \<^verbatim>\<open>STRUCTURE_TEMPLATES\<close> is an object literal, so an index or \<^verbatim>\<open>in\<close> with one of these
  names finds a property inherited from \<^verbatim>\<open>Object.prototype\<close>: a truthy value that is not
  an array.
\<close>

definition objectPrototypeKeys :: "string list" where
  "objectPrototypeKeys =
    [''constructor'', ''__proto__'', ''hasOwnProperty'', ''isPrototypeOf'',
     ''propertyIsEnumerable'', ''toLocaleString'', ''toString'', ''valueOf'',
     ''__defineGetter__'', ''__defineSetter__'', ''__lookupGetter__'', ''__lookupSetter__'']"

text \<open>\<^verbatim>\<open>name in STRUCTURE_TEMPLATES\<close>.\<close>

definition in_templates :: "string \<Rightarrow> bool" where
  "in_templates name =
     (name \<in> set (map fst STRUCTURE_TEMPLATES) \<or> name \<in> set objectPrototypeKeys)"

definition emptyRow :: "nat \<Rightarrow> LegRow" where
  "emptyRow i =
     \<lparr>leg = ''Leg '' @ show_nat i, expiry = [], strike = S [], type = [], ratio = N (Fin 1 0),
      bid_size = [], bid = [], mid = [], offer = [], offer_size = []\<rparr>"

definition initialState :: PricerState where
  "initialState =
     \<lparr>orderText = [], tableData = [emptyRow 1, emptyRow 2], header = None, brokerQuote = None,
      currentStructure = None, parseError = [], tableError = [], underlying = [],
      structureType = [], stockRef = [], delta = [], brokerPrice = [], quoteSide = ''bid'',
      quantity = [], loading = False\<rparr>"

definition setOrderText :: "string \<Rightarrow> PricerState \<Rightarrow> PricerState" where
  "setOrderText text s = s\<lparr>orderText := text\<rparr>"

text \<open>
  \<^verbatim>\<open>set({ [field]: value })\<close> with a string value. The toolbar passes the names of the
  toolbar fields; the model covers every string field of the state and leaves the state
  alone for any other name (a name that is no field adds a property the state type does
  not have; writing a string into a field of another type is outside the state type).
\<close>

definition setToolbarField :: "string \<Rightarrow> string \<Rightarrow> PricerState \<Rightarrow> PricerState" where
  "setToolbarField field v s =
     (if field = ''orderText'' then s\<lparr>orderText := v\<rparr>
      else if field = ''parseError'' then s\<lparr>parseError := v\<rparr>
      else if field = ''tableError'' then s\<lparr>tableError := v\<rparr>
      else if field = ''underlying'' then s\<lparr>underlying := v\<rparr>
      else if field = ''structureType'' then s\<lparr>structureType := v\<rparr>
      else if field = ''stockRef'' then s\<lparr>stockRef := v\<rparr>
      else if field = ''delta'' then s\<lparr>delta := v\<rparr>
      else if field = ''brokerPrice'' then s\<lparr>brokerPrice := v\<rparr>
      else if field = ''quoteSide'' then s\<lparr>quoteSide := v\<rparr>
      else if field = ''quantity'' then s\<lparr>quantity := v\<rparr>
      else s)"

definition is_structure_row :: "LegRow \<Rightarrow> bool" where
  "is_structure_row r = (leg r = ''Structure'')"

definition applyPriceResponse :: "PriceResponse \<Rightarrow> PricerState \<Rightarrow> PricerState" where
  "applyPriceResponse res s =
     (let legRows = filter (\<lambda>r. leg r \<noteq> ''Structure'') (table_data res);
          structRow = find (\<lambda>r. leg r = ''Structure'') (table_data res)
      in s\<lparr>tableData := (case structRow of Some r \<Rightarrow> legRows @ [r] | None \<Rightarrow> legRows),
            header := Some (res_header res),
            brokerQuote := broker_quote res,
            currentStructure := Some (current_structure res)\<rparr>)"

text \<open>
  \<^verbatim>\<open>parseAndPrice\<close>. Both requests are awaited before the store is written with anything
  of the parsed order; a rejected request goes to the \<^verbatim>\<open>catch\<close>. The responses are taken
  to have the declared types (with them nothing between the two requests and the end of the
  \<^verbatim>\<open>try\<close> block throws).
\<close>

definition parseAndPrice ::
  "(string \<Rightarrow> ParseResponse outcome) \<Rightarrow> (ParseResponse \<Rightarrow> PriceResponse outcome) \<Rightarrow>
   PricerState \<Rightarrow> PricerState" where
  "parseAndPrice parseOrder priceStructure s =
     (if trim (orderText s) = [] then s\<lparr>parseError := ''Please enter an order.''\<rparr>
      else
        (let s1 = s\<lparr>loading := True, parseError := [], tableError := []\<rparr> in
         case parseOrder (orderText s) of
           Inl e \<Rightarrow> s1\<lparr>loading := False, parseError := e\<rparr>
         | Inr parsed \<Rightarrow>
             (case priceStructure parsed of
                Inl e \<Rightarrow> s1\<lparr>loading := False, parseError := e\<rparr>
              | Inr res \<Rightarrow>
                  (let structName =
                         replaceAll (CHR '' '') (CHR ''_'') (toLowerCase (p_structure_name parsed))
                   in applyPriceResponse res
                        (s1\<lparr>loading := False,
                            parseError := [],
                            underlying := p_underlying parsed,
                            structureType := (if in_templates structName then structName else []),
                            stockRef :=
                              (if num_gt0 (p_stock_ref parsed) then jsString (p_stock_ref parsed)
                               else []),
                            delta :=
                              (if \<not> num_is0 (p_delta parsed) then jsString (p_delta parsed)
                               else []),
                            brokerPrice :=
                              (if num_gt0 (p_price parsed) then jsString (p_price parsed) else []),
                            quoteSide := p_quote_side parsed,
                            quantity :=
                              (if num_gt0 (p_quantity parsed) then jsString (p_quantity parsed)
                               else [])\<rparr>)))))"

definition monthMap :: "(string \<times> string) list" where
  "monthMap =
    [(''Jan'', ''01''), (''Feb'', ''02''), (''Mar'', ''03''), (''Apr'', ''04''),
     (''May'', ''05''), (''Jun'', ''06''), (''Jul'', ''07''), (''Aug'', ''08''),
     (''Sep'', ''09''), (''Oct'', ''10''), (''Nov'', ''11''), (''Dec'', ''12'')]"

text \<open>
  One pass of the loop over the leg rows: the leg pushed for a row, or nothing where the
  loop continues. (The month is the first three characters of the expiry, too short to
  name a property inherited by \<^verbatim>\<open>monthMap\<close>.)
\<close>

definition legOfRow :: "LegRow \<Rightarrow> TableLeg option" where
  "legOfRow row =
     (let expiry' = trim (expiry row);
          strike' = toNumber (strike row);
          type' = trim (type row);
          ratio' = toNumber (ratio row)
      in if expiry' = [] \<or> \<not> truthy strike' \<or> type' = [] \<or> \<not> truthy ratio' then None
         else
           (let monthStr = take 3 expiry'; yearStr = drop 3 expiry' in
            case map_of monthMap monthStr of
              None \<Rightarrow> None
            | Some month \<Rightarrow>
                if yearStr = [] then None
                else
                  (let year = num_add (Fin 2000 0) (parseInt yearStr);
                       expiryDate = jsString year @ ''-'' @ month @ ''-16''
                   in Some \<lparr>l_expiry = expiryDate,
                            l_strike = strike',
                            l_option_type = (if type' = ''C'' then ''call'' else ''put''),
                            l_side = (if num_gt0 ratio' then ''buy'' else ''sell''),
                            l_quantity = num_abs ratio',
                            l_ratio = num_abs ratio'\<rparr>)))"

fun buildLegs :: "LegRow list \<Rightarrow> TableLeg list" where
  "buildLegs [] = []"
| "buildLegs (row # rows) =
     (case legOfRow row of None \<Rightarrow> buildLegs rows | Some l \<Rightarrow> l # buildLegs rows)"

text \<open>The request that \<^verbatim>\<open>repriceFromTable\<close> sends, or nothing where it returns early.\<close>

definition repriceRequest :: "PricerState \<Rightarrow> PriceRequest option" where
  "repriceRequest s =
     (if trim (underlying s) = [] then None
      else
        (let legRows = filter (\<lambda>r. startsWith (leg r) ''Leg'') (tableData s);
             legs = buildLegs legRows
         in if legs = [] then None
            else Some
              \<lparr>q_underlying = toUpperCase (trim (underlying s)),
               q_structure_name =
                 replaceAll (CHR ''_'') (CHR '' '') (str_or (structureType s) ''custom''),
               q_legs = legs,
               q_stock_ref = num_or (parseFloat (stockRef s)) (Fin 0 0),
               q_delta = num_or (parseFloat (delta s)) (Fin 0 0),
               q_price = num_or (parseFloat (brokerPrice s)) (Fin 0 0),
               q_quote_side = str_or (quoteSide s) ''bid'',
               q_quantity = num_or (parseInt (quantity s)) (Fin 1 0)\<rparr>))"

definition repriceFromTable ::
  "(PriceRequest \<Rightarrow> PriceResponse outcome) \<Rightarrow> PricerState \<Rightarrow> PricerState" where
  "repriceFromTable priceFromTable s =
     (case repriceRequest s of
        None \<Rightarrow> s
      | Some req \<Rightarrow>
          (let s1 = s\<lparr>tableError := [], loading := True\<rparr> in
           case priceFromTable req of
             Inr res \<Rightarrow> applyPriceResponse res (s1\<lparr>loading := False\<rparr>)
           | Inl e \<Rightarrow> s1\<lparr>loading := False, tableError := e\<rparr>))"

definition template_rows :: "(string \<times> jsnum) list \<Rightarrow> LegRow list" where
  "template_rows template =
     map (\<lambda>(i, t). (emptyRow (i + 1))\<lparr>type := fst t, ratio := N (snd t)\<rparr>) (enumerate 0 template)"

text \<open>
  \<^verbatim>\<open>applyTemplate\<close>. For a name inherited from \<^verbatim>\<open>Object.prototype\<close> the looked-up value is
  truthy and has no \<^verbatim>\<open>map\<close>, so the call throws before the store is written.
\<close>

definition applyTemplate :: "string \<Rightarrow> PricerState \<Rightarrow> js_error + PricerState" where
  "applyTemplate structureType' s =
     (case map_of STRUCTURE_TEMPLATES structureType' of
        Some template \<Rightarrow>
          Inr (s\<lparr>tableData := template_rows template, structureType := structureType'\<rparr>)
      | None \<Rightarrow> if structureType' \<in> set objectPrototypeKeys then Inl TypeError else Inr s)"

text \<open>The store after an action that may throw: a throw leaves it as it was.\<close>

fun store_after :: "PricerState \<Rightarrow> js_error + PricerState \<Rightarrow> PricerState" where
  "store_after s (Inl e) = s"
| "store_after s (Inr s') = s'"

definition addRow :: "PricerState \<Rightarrow> PricerState" where
  "addRow s =
     (let rows = filter (\<lambda>r. leg r \<noteq> ''Structure'') (tableData s)
      in s\<lparr>tableData := rows @ [emptyRow (length rows + 1)]\<rparr>)"

definition removeRow :: "PricerState \<Rightarrow> PricerState" where
  "removeRow s =
     (let rows = filter (\<lambda>r. leg r \<noteq> ''Structure'') (tableData s)
      in s\<lparr>tableData := (if length rows > 1 then butlast rows else rows)\<rparr>)"

text \<open>\<^verbatim>\<open>row.ratio !== '' && row.ratio !== 0\<close>: strict comparison, so a string is never
  equal to the number 0 and a number is never equal to the empty string.\<close>

fun ratio_set :: "numstr \<Rightarrow> bool" where
  "ratio_set (S s) = (s \<noteq> [])"
| "ratio_set (N x) = (\<not> num_is0 x)"

definition flipRow :: "LegRow \<Rightarrow> LegRow" where
  "flipRow row =
     (if startsWith (leg row) ''Leg'' \<and> ratio_set (ratio row)
      then row\<lparr>ratio := N (num_neg (toNumber (ratio row)))\<rparr>
      else row)"

text \<open>
  The store as \<^verbatim>\<open>flipStructure\<close> writes it. With a non-blank underlying the action then
  starts \<^verbatim>\<open>repriceFromTable\<close> without awaiting it; \<open>flipStructure_repriced\<close> is the store
  once that reprice has settled.
\<close>

definition flipStructure :: "PricerState \<Rightarrow> PricerState" where
  "flipStructure s =
     s\<lparr>tableData := map flipRow (tableData s),
       delta := (if delta s \<noteq> [] then jsString (num_neg (parseFloat (delta s))) else [])\<rparr>"

definition flipStructure_repriced ::
  "(PriceRequest \<Rightarrow> PriceResponse outcome) \<Rightarrow> PricerState \<Rightarrow> PricerState" where
  "flipStructure_repriced priceFromTable s =
     (if trim (underlying s) \<noteq> [] then repriceFromTable priceFromTable (flipStructure s)
      else flipStructure s)"

definition clearAll :: "PricerState \<Rightarrow> PricerState" where
  "clearAll s =
     s\<lparr>orderText := [], tableData := [emptyRow 1, emptyRow 2], header := None,
       brokerQuote := None, currentStructure := None, parseError := [], tableError := [],
       underlying := [], structureType := [], stockRef := [], delta := [], brokerPrice := [],
       quoteSide := ''bid'', quantity := []\<rparr>"

text \<open>\<^verbatim>\<open>x != null ? String(x) : ''\<close> and \<^verbatim>\<open>s || d\<close> on optional fields.\<close>

definition opt_string :: "jsnum option \<Rightarrow> string" where
  "opt_string x = (case x of None \<Rightarrow> [] | Some v \<Rightarrow> jsString v)"

definition opt_str_or :: "string option \<Rightarrow> string \<Rightarrow> string" where
  "opt_str_or x d = (case x of None \<Rightarrow> d | Some v \<Rightarrow> str_or v d)"

definition opt_num_or :: "jsnum option \<Rightarrow> jsnum \<Rightarrow> jsnum" where
  "opt_num_or x d = (case x of None \<Rightarrow> d | Some v \<Rightarrow> num_or v d)"

definition recallOrder :: "BlotterOrder \<Rightarrow> PricerState \<Rightarrow> PricerState" where
  "recallOrder order s =
     (case rc_table_data order of
        None \<Rightarrow> s
      | Some rows \<Rightarrow>
          s\<lparr>tableData := rows,
            underlying := opt_str_or (rc_underlying order) [],
            structureType := opt_str_or (rc_structure_type order) [],
            stockRef := opt_string (rc_stock_ref order),
            delta := opt_string (rc_delta order),
            brokerPrice := opt_string (rc_broker_price order),
            quoteSide := opt_str_or (rc_quote_side order) ''bid'',
            quantity := opt_string (rc_quantity order),
            currentStructure := rc_current_structure order,
            header :=
              (case rc_current_structure order of
                 None \<Rightarrow> None
               | Some cs \<Rightarrow>
                   Some \<lparr>h_underlying = cs_underlying cs,
                         h_structure_name = cs_structure_name cs,
                         h_stock_ref = opt_num_or (rc_stock_ref order) (Fin 0 0),
                         h_stock_price = Fin 0 0,
                         h_delta = opt_num_or (rc_delta order) (Fin 0 0)\<rparr>),
            brokerQuote :=
              (case (rc_broker_price order, rc_current_structure order) of
                 (Some bp, Some cs) \<Rightarrow>
                   (case cs_mid cs of
                      Some m \<Rightarrow>
                        if truthy bp \<and> num_gt0 bp then
                          Some \<lparr>broker_price = bp,
                                quote_side = toUpperCase (opt_str_or (rc_quote_side order) ''bid''),
                                screen_mid = Some m,
                                edge = Some (num_sub bp m)\<rparr>
                        else None
                    | None \<Rightarrow> None)
               | _ \<Rightarrow> None),
            parseError := [],
            tableError := []\<rparr>)"

section \<open>The Add Order button (components/Pricer/AddOrderButton.tsx)\<close>

definition sideMap :: "(string \<times> string) list" where
  "sideMap = [(''bid'', ''Bid''), (''offer'', ''Offered'')]"

text \<open>
  The order that \<^verbatim>\<open>handleAdd\<close> hands to the blotter store, or nothing when there is no
  current structure. The identifier and the time stamp come from \<^verbatim>\<open>Math.random\<close> and the
  clock and are parameters. (\<^verbatim>\<open>sideMap\<close> is an object literal too: for a quote side that
  names an inherited property the \<^verbatim>\<open>side\<close> field is not a string; the model writes the
  empty string there.)
\<close>

definition handleAdd :: "string \<Rightarrow> string \<Rightarrow> PricerState \<Rightarrow> BlotterOrder option" where
  "handleAdd new_id now s =
     (case currentStructure s of
        None \<Rightarrow> None
      | Some cs \<Rightarrow>
          Some
            \<lparr>o_id = new_id,
             o_added_time = now,
             o_underlying = cs_underlying cs,
             o_structure = cs_structure_name cs @ '' '' @ cs_structure_detail cs,
             o_bid = (case cs_bid cs of Some x \<Rightarrow> toFixed2 x | None \<Rightarrow> ''--''),
             o_mid = (case cs_mid cs of Some x \<Rightarrow> toFixed2 x | None \<Rightarrow> ''--''),
             o_offer = (case cs_offer cs of Some x \<Rightarrow> toFixed2 x | None \<Rightarrow> ''--''),
             o_bid_size = (case cs_bid_size cs of Some x \<Rightarrow> jsString x | None \<Rightarrow> ''--''),
             o_offer_size = (case cs_offer_size cs of Some x \<Rightarrow> jsString x | None \<Rightarrow> ''--''),
             o_side = (case map_of sideMap (quoteSide s) of Some v \<Rightarrow> v | None \<Rightarrow> []),
             o_size = quantity s,
             o_traded = ''No'',
             o_bought_sold = [],
             o_traded_price = [],
             o_initiator = [],
             o_pnl = [],
             o_multiplier = cs_multiplier cs,
             rc_table_data = Some (tableData s),
             rc_underlying = Some (underlying s),
             rc_structure_type = Some (structureType s),
             rc_stock_ref = num_or_undefined (parseFloat (stockRef s)),
             rc_delta = num_or_undefined (parseFloat (delta s)),
             rc_broker_price = num_or_undefined (parseFloat (brokerPrice s)),
             rc_quote_side = Some (quoteSide s),
             rc_quantity = num_or_undefined (parseInt (quantity s)),
             rc_current_structure = Some cs\<rparr>)"

section \<open>The store as a transition system\<close>

text \<open>The three calls of the REST client that the store awaits.\<close>

record Api =
  api_parseOrder :: "string \<Rightarrow> ParseResponse outcome"
  api_priceStructure :: "ParseResponse \<Rightarrow> PriceResponse outcome"
  api_priceFromTable :: "PriceRequest \<Rightarrow> PriceResponse outcome"

text \<open>The actions of the store, with their arguments.\<close>

datatype action =
    SetOrderText string
  | SetToolbarField string string
  | ParseAndPrice
  | RepriceFromTable
  | ApplyPriceResponse PriceResponse
  | ApplyTemplate string
  | AddRow
  | RemoveRow
  | FlipStructure
  | ClearAll
  | RecallOrder BlotterOrder

text \<open>The store once an action, and every request it started, has settled.\<close>

fun dispatch :: "Api \<Rightarrow> action \<Rightarrow> PricerState \<Rightarrow> PricerState" where
  "dispatch api (SetOrderText text) s = setOrderText text s"
| "dispatch api (SetToolbarField field v) s = setToolbarField field v s"
| "dispatch api ParseAndPrice s = parseAndPrice (api_parseOrder api) (api_priceStructure api) s"
| "dispatch api RepriceFromTable s = repriceFromTable (api_priceFromTable api) s"
| "dispatch api (ApplyPriceResponse res) s = applyPriceResponse res s"
| "dispatch api (ApplyTemplate structureType') s = store_after s (applyTemplate structureType' s)"
| "dispatch api AddRow s = addRow s"
| "dispatch api RemoveRow s = removeRow s"
| "dispatch api FlipStructure s = flipStructure_repriced (api_priceFromTable api) s"
| "dispatch api ClearAll s = clearAll s"
| "dispatch api (RecallOrder order) s = recallOrder order s"

text \<open>
  Adding the current structure to the blotter and recalling that order into a pricer state
  \<open>s'\<close> (the state at the time of the click). The blotter store and its persistence are
  taken to hand the order back as it was added.
\<close>

definition add_then_recall ::
  "string \<Rightarrow> string \<Rightarrow> PricerState \<Rightarrow> PricerState \<Rightarrow> PricerState option" where
  "add_then_recall new_id now s s' =
     (case handleAdd new_id now s of
        None \<Rightarrow> None
      | Some order \<Rightarrow> Some (recallOrder order s'))"

section \<open>Notions used in the statements\<close>

text \<open>The row labelled \<open>Leg i\<close> with the given option type and ratio and with empty
  expiry, strike and quote fields.\<close>

definition template_row :: "nat \<Rightarrow> string \<Rightarrow> jsnum \<Rightarrow> LegRow" where
  "template_row i t r =
     \<lparr>leg = ''Leg '' @ show_nat i, expiry = [], strike = S [], type = t, ratio = N r,
      bid_size = [], bid = [], mid = [], offer = [], offer_size = []\<rparr>"

text \<open>A string of the form \<^verbatim>\<open>[-]digits.dd\<close>: a number written with two decimals.\<close>

definition two_decimal :: "string \<Rightarrow> bool" where
  "two_decimal s =
     (let u = (case s of [] \<Rightarrow> s | c # t \<Rightarrow> if c = CHR ''-'' then t else s);
          ip = takeWhile isDigit u;
          r = dropWhile isDigit u
      in ip \<noteq> [] \<and> (case r of [] \<Rightarrow> False | d # fp \<Rightarrow> d = CHR ''.'' \<and> length fp = 2 \<and> list_all isDigit fp))"

text \<open>A number in shortest form: a finite one has no trailing zero after the point.\<close>

definition is_norm :: "jsnum \<Rightarrow> bool" where
  "is_norm x = (case x of Fin m k \<Rightarrow> norm_pair m k = (m, k) | _ \<Rightarrow> True)"

text \<open>The pricing table has at most one row labelled \<open>Structure\<close>, and that row is the
  last one: no row before the last is a structure row.\<close>

definition table_shape :: "LegRow list \<Rightarrow> bool" where
  "table_shape rows = list_all (\<lambda>r. \<not> is_structure_row r) (butlast rows)"

text \<open>The leg rows of a table, in their order.\<close>

definition leg_rows :: "LegRow list \<Rightarrow> LegRow list" where
  "leg_rows rows = filter (\<lambda>r. \<not> is_structure_row r) rows"

text \<open>The error message with which \<open>parseAndPrice\<close> fails, if it fails: on a blank
  order text, on a rejected parse request, on a rejected pricing request.\<close>

definition parse_failure ::
  "(string \<Rightarrow> ParseResponse outcome) \<Rightarrow> (ParseResponse \<Rightarrow> PriceResponse outcome) \<Rightarrow>
   PricerState \<Rightarrow> string option" where
  "parse_failure parseOrder priceStructure s =
     (if trim (orderText s) = [] then Some ''Please enter an order.''
      else
        (case parseOrder (orderText s) of
           Inl e \<Rightarrow> Some e
         | Inr parsed \<Rightarrow> (case priceStructure parsed of Inl e \<Rightarrow> Some e | Inr res \<Rightarrow> None)))"

text \<open>A toolbar field that survives being saved with \<^verbatim>\<open>parseFloat(s) || undefined\<close> and
  restored with \<^verbatim>\<open>String\<close>: it is empty, or it is the string that \<^verbatim>\<open>String\<close> prints for
  the number it holds and that number is neither 0 nor NaN. The same for \<^verbatim>\<open>parseInt\<close>.\<close>

definition float_field_stable :: "string \<Rightarrow> bool" where
  "float_field_stable v =
     (v = [] \<or> (truthy (parseFloat v) \<and> jsString (parseFloat v) = v))"

definition int_field_stable :: "string \<Rightarrow> bool" where
  "int_field_stable v =
     (v = [] \<or> (truthy (parseInt v) \<and> jsString (parseInt v) = v))"

text \<open>A string that \<^verbatim>\<open>String\<close> prints for some number: a canonical numeric string.\<close>

definition canonical_float :: "string \<Rightarrow> bool" where
  "canonical_float v = (jsString (parseFloat v) = v)"

definition canonical_int :: "string \<Rightarrow> bool" where
  "canonical_int v = (jsString (parseInt v) = v)"

text \<open>How Add Order writes an optional number: the literal \<open>--\<close> for an unavailable one,
  the formatted number, which is never \<open>--\<close>, for an available one.\<close>

definition serialized :: "(jsnum \<Rightarrow> string) \<Rightarrow> jsnum option \<Rightarrow> string \<Rightarrow> bool" where
  "serialized fmt v out =
     (case v of None \<Rightarrow> out = ''--'' | Some x \<Rightarrow> out = fmt x \<and> out \<noteq> ''--'')"

text \<open>What one flip does to a row: a leg row with a non-empty ratio other than 0 has its
  ratio negated, a row that is no leg row is unchanged, and no other field of any row
  changes.\<close>

definition flipped_row :: "LegRow \<Rightarrow> LegRow \<Rightarrow> bool" where
  "flipped_row r r' =
     ((startsWith (leg r) ''Leg'' \<and> ratio r \<noteq> S [] \<and> \<not> num_is0 (toNumber (ratio r))
         \<longrightarrow> ratio r' = N (num_neg (toNumber (ratio r))))
      \<and> (\<not> startsWith (leg r) ''Leg'' \<longrightarrow> r' = r)
      \<and> r'\<lparr>ratio := ratio r\<rparr> = r)"

text \<open>What two flips do to a row: the ratio has its original numeric value (the very same
  field when it was a number already), and every other field is the original one.\<close>

definition restored_row :: "LegRow \<Rightarrow> LegRow \<Rightarrow> bool" where
  "restored_row r r' =
     (toNumber (ratio r') = toNumber (ratio r)
      \<and> r'\<lparr>ratio := ratio r\<rparr> = r
      \<and> (case ratio r of N x \<Rightarrow> r' = r | S v \<Rightarrow> True))"

text \<open>What a submitted leg owes to its row: the row's ratio is a number other than 0, the
  side is buy exactly for a positive and sell exactly for a negative ratio, quantity and
  ratio are the absolute value of the row's ratio and so not 0, and the row has an expiry,
  a strike and a type.\<close>

definition leg_matches_row :: "LegRow \<Rightarrow> TableLeg \<Rightarrow> bool" where
  "leg_matches_row row l =
     (truthy (toNumber (ratio row))
      \<and> (l_side l = ''buy'' \<longleftrightarrow> num_gt0 (toNumber (ratio row)))
      \<and> (l_side l = ''sell'' \<longleftrightarrow> num_lt0 (toNumber (ratio row)))
      \<and> l_quantity l = num_abs (toNumber (ratio row))
      \<and> l_ratio l = num_abs (toNumber (ratio row))
      \<and> truthy (l_ratio l)
      \<and> trim (expiry row) \<noteq> []
      \<and> truthy (toNumber (strike row))
      \<and> trim (type row) \<noteq> [])"

text \<open>A row that the loop skips for a missing or zero field.\<close>

definition row_incomplete :: "LegRow \<Rightarrow> bool" where
  "row_incomplete row =
     (trim (expiry row) = [] \<or> \<not> truthy (toNumber (strike row)) \<or> trim (type row) = []
      \<or> \<not> truthy (toNumber (ratio row)))"

text \<open>The parts of the pricer state that the order being priced determines: all of it
  except the two error messages and the loading flag.\<close>

definition same_order_fields :: "PricerState \<Rightarrow> PricerState \<Rightarrow> bool" where
  "same_order_fields s s' =
     (orderText s' = orderText s \<and> tableData s' = tableData s \<and> header s' = header s
      \<and> brokerQuote s' = brokerQuote s \<and> currentStructure s' = currentStructure s
      \<and> underlying s' = underlying s \<and> structureType s' = structureType s
      \<and> stockRef s' = stockRef s \<and> delta s' = delta s \<and> brokerPrice s' = brokerPrice s
      \<and> quoteSide s' = quoteSide s \<and> quantity s' = quantity s)"

text \<open>The table saved in a recalled order has the shape of a pricing table; every other
  action has no such condition.\<close>

definition saved_table_ok :: "action \<Rightarrow> bool" where
  "saved_table_ok a =
     (case a of
        RecallOrder order \<Rightarrow>
          (case rc_table_data order of None \<Rightarrow> True | Some rows \<Rightarrow> table_shape rows)
      | _ \<Rightarrow> True)"

text \<open>The toolbar fields survive being saved in a blotter order and restored from it.\<close>

definition toolbar_stable :: "PricerState \<Rightarrow> bool" where
  "toolbar_stable s =
     (float_field_stable (stockRef s) \<and> float_field_stable (delta s)
      \<and> float_field_stable (brokerPrice s) \<and> int_field_stable (quantity s)
      \<and> quoteSide s \<noteq> [])"

text \<open>A state has the table rows, underlying, structure type, stock reference, delta,
  broker price, quote side, quantity and current structure of another.\<close>

definition same_recalled_fields :: "PricerState \<Rightarrow> PricerState \<Rightarrow> bool" where
  "same_recalled_fields s r =
     (tableData r = tableData s \<and> underlying r = underlying s
      \<and> structureType r = structureType s \<and> stockRef r = stockRef s \<and> delta r = delta s
      \<and> brokerPrice r = brokerPrice s \<and> quoteSide r = quoteSide s \<and> quantity r = quantity s
      \<and> currentStructure r = currentStructure s)"

subsection \<open>Example data\<close>

definition quoted_row :: "string \<Rightarrow> string \<Rightarrow> numstr \<Rightarrow> string \<Rightarrow> numstr \<Rightarrow> LegRow" where
  "quoted_row l e k t r =
     \<lparr>leg = l, expiry = e, strike = k, type = t, ratio = r,
      bid_size = ''100'', bid = ''1.00'', mid = ''1.05'', offer = ''1.10'', offer_size = ''100''\<rparr>"

definition sample_rows :: "LegRow list" where
  "sample_rows =
     [quoted_row ''Leg 1'' ''Jun26'' (N (Fin 240 0)) ''P'' (N (Fin 1 0)),
      quoted_row ''Leg 2'' ''Jun26'' (S ''220'') ''P'' (S ''-2''),
      quoted_row ''Structure'' [] (S []) [] (S [])]"

definition sample_structure :: CurrentStructure where
  "sample_structure =
     \<lparr>cs_underlying = ''AAPL'', cs_structure_name = ''Put Spread'',
      cs_structure_detail = ''Jun26 240/220'', cs_bid = Some (Fin 345 2), cs_mid = None,
      cs_offer = Some (Fin 36 1), cs_bid_size = None, cs_offer_size = Some (Fin 120 0),
      cs_multiplier = Fin 100 0\<rparr>"

definition sample_state :: PricerState where
  "sample_state =
     \<lparr>orderText = ''AAPL Jun26 240/220 PS 1X2 vs250 15d 500x @ 3.50'',
      tableData = sample_rows, header = None, brokerQuote = None,
      currentStructure = Some sample_structure, parseError = [], tableError = ''stale'',
      underlying = ''AAPL'', structureType = ''put_spread'', stockRef = ''250'',
      delta = ''15'', brokerPrice = ''3.5'', quoteSide = ''bid'', quantity = ''500'',
      loading = False\<rparr>"

definition sample_request :: PriceRequest where
  "sample_request =
     \<lparr>q_underlying = ''AAPL'', q_structure_name = ''put spread'',
      q_legs =
        [\<lparr>l_expiry = ''2026-06-16'', l_strike = Fin 240 0, l_option_type = ''put'',
          l_side = ''buy'', l_quantity = Fin 1 0, l_ratio = Fin 1 0\<rparr>,
         \<lparr>l_expiry = ''2026-06-16'', l_strike = Fin 220 0, l_option_type = ''put'',
          l_side = ''sell'', l_quantity = Fin 2 0, l_ratio = Fin 2 0\<rparr>],
      q_stock_ref = Fin 250 0, q_delta = Fin 15 0, q_price = Fin 35 1,
      q_quote_side = ''bid'', q_quantity = Fin 500 0\<rparr>"

definition sample_parsed :: ParseResponse where
  "sample_parsed =
     \<lparr>p_underlying = ''MSFT'', p_structure_name = ''Call Spread'', p_legs = [],
      p_stock_ref = Fin 410 0, p_delta = Fin 30 0, p_price = Fin 21 1, p_quote_side = ''offer'',
      p_quantity = Fin 100 0, p_raw_text = ''MSFT Jun26 400/420 CS vs410 30d 100x 2.1 offer''\<rparr>"

definition sample_response :: PriceResponse where
  "sample_response =
     \<lparr>table_data =
        [quoted_row ''Structure'' [] (S []) [] (S []),
         quoted_row ''Leg 1'' ''Jun26'' (N (Fin 400 0)) ''C'' (N (Fin 1 0)),
         quoted_row ''Leg 2'' ''Jun26'' (N (Fin 420 0)) ''C'' (N (Fin (- 1) 0))],
      res_header =
        \<lparr>h_underlying = ''MSFT'', h_structure_name = ''Call Spread'', h_stock_ref = Fin 410 0,
         h_stock_price = Fin 41125 2, h_delta = Fin 30 0\<rparr>,
      broker_quote = None,
      current_structure = sample_structure\<rparr>"

definition sample_api :: Api where
  "sample_api =
     \<lparr>api_parseOrder = (\<lambda>t. Inr sample_parsed),
      api_priceStructure = (\<lambda>p. Inr sample_response),
      api_priceFromTable = (\<lambda>q. Inl ''no market data'')\<rparr>"

definition blank_order :: BlotterOrder where
  "blank_order =
     \<lparr>o_id = ''id-0'', o_added_time = ''2026-01-05T09:00:00'', o_underlying = [],
      o_structure = [], o_bid = ''--'', o_mid = ''--'', o_offer = ''--'', o_bid_size = ''--'',
      o_offer_size = ''--'', o_side = [], o_size = [], o_traded = ''No'', o_bought_sold = [],
      o_traded_price = [], o_initiator = [], o_pnl = [], o_multiplier = Fin 100 0,
      rc_table_data = None, rc_underlying = None, rc_structure_type = None,
      rc_stock_ref = None, rc_delta = None, rc_broker_price = None, rc_quote_side = None,
      rc_quantity = None, rc_current_structure = None\<rparr>"

text \<open>An order whose saved table lists the structure row first.\<close>

definition misordered_order :: BlotterOrder where
  "misordered_order =
     blank_order\<lparr>rc_table_data :=
       Some [quoted_row ''Structure'' [] (S []) [] (S []),
             quoted_row ''Leg 1'' ''Jun26'' (N (Fin 400 0)) ''C'' (N (Fin 1 0))]\<rparr>"

text \<open>The sample state with a delta of zero typed into the toolbar.\<close>

definition zero_delta_state :: PricerState where
  "zero_delta_state = sample_state\<lparr>delta := ''0''\<rparr>"

section \<open>Properties of the Structure Aggregator\<close>

lemma sum_quotes_Unavailable:
  "sum_quotes qs = Unavailable \<longleftrightarrow> Unavailable \<in> set qs"
proof (induction qs)
  case Nil
  show ?case by simp
next
  case (Cons q qs)
  show ?case
  proof (cases q)
    case (Value a)
    then show ?thesis using Cons.IH by (cases "sum_quotes qs") auto
  next
    case Unavailable
    then show ?thesis by simp
  qed
qed

lemma weigh_Unavailable:
  "weigh c q = Unavailable \<longleftrightarrow> q = Unavailable"
  "Unavailable = weigh c q \<longleftrightarrow> q = Unavailable"
  by (cases q; simp)+

lemma structure_bid_Unavailable:
  "structure_bid legs = Unavailable \<longleftrightarrow> (\<exists>l \<in> set legs. bid_side_quote l = Unavailable)"
  by (force simp: structure_bid_def sum_quotes_Unavailable weigh_Unavailable image_iff)

lemma structure_offer_Unavailable:
  "structure_offer legs = Unavailable \<longleftrightarrow> (\<exists>l \<in> set legs. offer_side_quote l = Unavailable)"
  by (force simp: structure_offer_def sum_quotes_Unavailable weigh_Unavailable image_iff)

lemma structure_mid_Unavailable:
  "structure_mid legs = Unavailable \<longleftrightarrow>
     structure_bid legs = Unavailable \<or> structure_offer legs = Unavailable"
  by (simp add: structure_mid_def split: quote.splits)

lemma uncrossed_fills:
  assumes "leg_uncrossed l"
  shows "\<exists>x y. weigh (- fst l) (bid_side_quote l) = Value x \<and>
               weigh (- fst l) (offer_side_quote l) = Value y \<and> x \<le> y"
proof -
  obtain r d where l: "l = (r, d)" by (cases l)
  from assms l obtain b a where q: "lmd_bid d = Value b" "lmd_offer d = Value a" "b \<le> a"
    by (auto simp: leg_uncrossed_def split: quote.splits)
  show ?thesis
  proof (cases "r > 0")
    case True
    with q have "- r * a \<le> - r * b" by (simp add: mult_left_mono)
    with True q l show ?thesis by (simp add: bid_side_quote_def offer_side_quote_def)
  next
    case False
    then have "0 \<le> - r" by simp
    with q have "- r * b \<le> - r * a" by (intro mult_left_mono) simp_all
    with False q l show ?thesis by (simp add: bid_side_quote_def offer_side_quote_def)
  qed
qed

text \<open>
  C1 (amended). For every set of legs with signed ratios whose per-leg bid and offer are all
  available and whose own markets are not crossed (leg bid \<open>\<le>\<close> leg offer), the structure
  bid and the structure offer are both available numbers and structure bid \<open>\<le>\<close> structure
  offer. The inequality comes from the two sums alone: the definitions contain no minimum,
  maximum or absolute value, and the signs of the sums are kept (see the witness, a net
  debit with both sides negative).
\<close>

theorem structure_bid_le_offer:
  "list_all leg_uncrossed legs \<Longrightarrow>
     \<exists>sb so. structure_bid legs = Value sb \<and> structure_offer legs = Value so \<and> sb \<le> so"
proof (induction legs)
  case Nil
  show ?case by (simp add: structure_bid_def structure_offer_def)
next
  case (Cons l legs)
  then obtain sb so where
    ih: "structure_bid legs = Value sb" "structure_offer legs = Value so" "sb \<le> so"
    by auto
  from Cons.prems have "leg_uncrossed l" by simp
  from uncrossed_fills [OF this] obtain x y where
    xy: "weigh (- fst l) (bid_side_quote l) = Value x"
        "weigh (- fst l) (offer_side_quote l) = Value y" "x \<le> y"
    by blast
  from ih xy show ?case
    by (simp add: structure_bid_def structure_offer_def)
qed

theorem structure_bid_le_offer_witness:
  "list_all leg_uncrossed [mk_leg 1 (Value 3) (Value 4), mk_leg (-1) (Value 1) (Value 2)]
   \<and> structure_bid [mk_leg 1 (Value 3) (Value 4), mk_leg (-1) (Value 1) (Value 2)] = Value (-3)
   \<and> structure_offer [mk_leg 1 (Value 3) (Value 4), mk_leg (-1) (Value 1) (Value 2)] = Value (-1)
   \<and> (\<exists>sb so. structure_bid [mk_leg 1 (Value 3) (Value 4), mk_leg (-1) (Value 1) (Value 2)] = Value sb
        \<and> structure_offer [mk_leg 1 (Value 3) (Value 4), mk_leg (-1) (Value 1) (Value 2)] = Value so
        \<and> sb \<le> so)"
proof -
  have h: "list_all leg_uncrossed [mk_leg 1 (Value 3) (Value 4), mk_leg (-1) (Value 1) (Value 2)]"
    by (simp add: leg_uncrossed_def mk_leg_def)
  have b: "structure_bid [mk_leg 1 (Value 3) (Value 4), mk_leg (-1) (Value 1) (Value 2)] = Value (-3)"
    by (simp add: structure_bid_def bid_side_quote_def mk_leg_def)
  have a: "structure_offer [mk_leg 1 (Value 3) (Value 4), mk_leg (-1) (Value 1) (Value 2)] = Value (-1)"
    by (simp add: structure_offer_def offer_side_quote_def mk_leg_def)
  from h b a structure_bid_le_offer [OF h] show ?thesis by blast
qed

text \<open>
  C1 as stated fails: one long leg whose own market is crossed (bid 2, offer 1) has every
  quote available, and the two sums give structure bid \<open>\<minus>1\<close> above structure offer \<open>\<minus>2\<close>.
\<close>

theorem structure_bid_le_offer_counterexample:
  "list_all leg_available [mk_leg 1 (Value 2) (Value 1)]
   \<and> structure_bid [mk_leg 1 (Value 2) (Value 1)] = Value (-1)
   \<and> structure_offer [mk_leg 1 (Value 2) (Value 1)] = Value (-2)
   \<and> \<not> ((-1::rat) \<le> -2)"
  by (simp add: structure_bid_def structure_offer_def bid_side_quote_def offer_side_quote_def
      mk_leg_def leg_available_def)

text \<open>
  C2. If the quote of any contributing leg that a side needs is unavailable, that side of
  the structure is unavailable (and only then: the side is a number exactly when every
  needed quote is one), and the mid is unavailable as soon as one side is. If every leg of
  a structure (one leg at least) is unavailable, then bid, offer and mid are all
  unavailable.
\<close>

theorem unavailable_propagates:
  "((\<exists>l \<in> set legs. bid_side_quote l = Unavailable) \<longrightarrow> structure_bid legs = Unavailable)
   \<and> ((\<exists>l \<in> set legs. offer_side_quote l = Unavailable) \<longrightarrow> structure_offer legs = Unavailable)
   \<and> ((\<exists>l \<in> set legs. bid_side_quote l = Unavailable \<or> offer_side_quote l = Unavailable)
        \<longrightarrow> structure_mid legs = Unavailable)
   \<and> (structure_bid legs \<noteq> Unavailable \<longrightarrow> list_all (\<lambda>l. bid_side_quote l \<noteq> Unavailable) legs)
   \<and> (structure_offer legs \<noteq> Unavailable \<longrightarrow> list_all (\<lambda>l. offer_side_quote l \<noteq> Unavailable) legs)
   \<and> (legs \<noteq> [] \<and> list_all leg_unavailable legs \<longrightarrow>
        structure_bid legs = Unavailable \<and> structure_offer legs = Unavailable
        \<and> structure_mid legs = Unavailable)"
proof -
  have all: "structure_bid legs = Unavailable \<and> structure_offer legs = Unavailable
      \<and> structure_mid legs = Unavailable"
    if ne: "legs \<noteq> []" and un: "list_all leg_unavailable legs"
  proof -
    from ne obtain l where l: "l \<in> set legs" by (cases legs) auto
    with un have "leg_unavailable l" by (simp add: list_all_iff)
    then have "bid_side_quote l = Unavailable" "offer_side_quote l = Unavailable"
      by (simp_all add: leg_unavailable_def bid_side_quote_def offer_side_quote_def)
    with l show ?thesis
      by (auto simp: structure_bid_Unavailable structure_offer_Unavailable
          structure_mid_Unavailable)
  qed
  show ?thesis
    using all
    by (auto simp: structure_bid_Unavailable structure_offer_Unavailable
        structure_mid_Unavailable list_all_iff)
qed

theorem unavailable_propagates_witness:
  "bid_side_quote (mk_leg (-1) Unavailable (Value 2)) = Unavailable
   \<and> offer_side_quote (mk_leg (-1) Unavailable (Value 2)) = Value 2
   \<and> structure_bid [mk_leg 1 (Value 3) (Value 4), mk_leg (-1) Unavailable (Value 2)] = Unavailable
   \<and> structure_offer [mk_leg 1 (Value 3) (Value 4), mk_leg (-1) Unavailable (Value 2)] = Value (-1)
   \<and> structure_mid [mk_leg 1 (Value 3) (Value 4), mk_leg (-1) Unavailable (Value 2)] = Unavailable
   \<and> list_all leg_unavailable [mk_leg 1 Unavailable Unavailable, mk_leg (-1) Unavailable Unavailable]
   \<and> structure_bid [mk_leg 1 Unavailable Unavailable, mk_leg (-1) Unavailable Unavailable] = Unavailable
   \<and> structure_offer [mk_leg 1 Unavailable Unavailable, mk_leg (-1) Unavailable Unavailable] = Unavailable
   \<and> structure_mid [mk_leg 1 Unavailable Unavailable, mk_leg (-1) Unavailable Unavailable] = Unavailable"
proof -
  have q: "bid_side_quote (mk_leg (-1) Unavailable (Value 2)) = Unavailable"
    "offer_side_quote (mk_leg (-1) Unavailable (Value 2)) = Value 2"
    by (simp_all add: bid_side_quote_def offer_side_quote_def mk_leg_def)
  have o: "structure_offer [mk_leg 1 (Value 3) (Value 4), mk_leg (-1) Unavailable (Value 2)] = Value (-1)"
    by (simp add: structure_offer_def offer_side_quote_def mk_leg_def)
  have u: "list_all leg_unavailable [mk_leg 1 Unavailable Unavailable, mk_leg (-1) Unavailable Unavailable]"
    by (simp add: leg_unavailable_def mk_leg_def)
  from q have e: "\<exists>l \<in> set [mk_leg 1 (Value 3) (Value 4), mk_leg (-1) Unavailable (Value 2)].
      bid_side_quote l = Unavailable"
    by simp
  from unavailable_propagates [of "[mk_leg 1 (Value 3) (Value 4), mk_leg (-1) Unavailable (Value 2)]"] e
  have p: "structure_bid [mk_leg 1 (Value 3) (Value 4), mk_leg (-1) Unavailable (Value 2)] = Unavailable"
    "structure_mid [mk_leg 1 (Value 3) (Value 4), mk_leg (-1) Unavailable (Value 2)] = Unavailable"
    by blast+
  from unavailable_propagates [of "[mk_leg 1 Unavailable Unavailable, mk_leg (-1) Unavailable Unavailable]"] u
  have r: "structure_bid [mk_leg 1 Unavailable Unavailable, mk_leg (-1) Unavailable Unavailable] = Unavailable
    \<and> structure_offer [mk_leg 1 Unavailable Unavailable, mk_leg (-1) Unavailable Unavailable] = Unavailable
    \<and> structure_mid [mk_leg 1 Unavailable Unavailable, mk_leg (-1) Unavailable Unavailable] = Unavailable"
    by blast
  from q o u p r show ?thesis by blast
qed

section \<open>Evaluation on literals\<close>

lemma show_nat_numeral [simp]:
  "show_nat (numeral w) =
     (if (numeral w :: nat) < 10 then [digit_char (numeral w)]
      else show_nat (numeral w div 10) @ [digit_char (numeral w mod 10)])"
  by (rule show_nat.simps)

lemma show_nat_small: "n < 10 \<Longrightarrow> show_nat n = [digit_char n]"
  by (simp add: show_nat.simps)

lemma show_nat_0 [simp]: "show_nat 0 = ''0''"
  by (simp add: show_nat_small digit_char_def)

lemma show_nat_1 [simp]: "show_nat (Suc 0) = ''1''"
  by (simp add: show_nat_small digit_char_def)

lemma norm_pair_numeral [simp]:
  "norm_pair m (numeral w) =
     (if m mod 10 = 0 then norm_pair (m div 10) (pred_numeral w) else (m, numeral w))"
  by (simp add: numeral_eq_Suc)

lemma replicate_numeral_eval [simp]:
  "replicate (numeral w) x = x # replicate (pred_numeral w) x"
  by (simp add: numeral_eq_Suc)

lemmas js_eval =
  digit_char_def isDigit_def digit_val_def digits_val_def pos_digits_def norm_dec_def
  isWhite_def trimStart_def trim_def split_sign_def parse_exponent_def scale10_def
  parse_unsigned_def parse_dec_literal_def parseFloat_def radix_val_def isRadixDigit_def
  radix_digits_val_def hex_prefixed_def parseInt_def parse_nondecimal_def stringToNumber_def
  startsWith_def lower_char_def upper_char_def toLowerCase_def toUpperCase_def replaceAll_def
  str_or_def num_sub_def num_or_def num_or_undefined_def Let_def

section \<open>Digits and printed numbers\<close>

lemma lt10_cases:
  assumes "d < (10::nat)"
  shows "d = 0 \<or> d = 1 \<or> d = 2 \<or> d = 3 \<or> d = 4 \<or> d = 5 \<or> d = 6 \<or> d = 7 \<or> d = 8 \<or> d = 9"
  using assms by arith

lemma digit_char_isDigit: "d < 10 \<Longrightarrow> isDigit (digit_char d)"
  by (drule lt10_cases) (auto simp: digit_char_def isDigit_def)

lemma digit_val_digit_char: "d < 10 \<Longrightarrow> digit_val (digit_char d) = d"
  by (drule lt10_cases) (auto simp: digit_char_def digit_val_def)

lemma not_digit [simp]:
  "\<not> isDigit (CHR ''.'')" "\<not> isDigit (CHR ''-'')" "\<not> isDigit (CHR ''+'')"
  "\<not> isDigit (CHR ''e'')" "\<not> isDigit (CHR ''E'')"
  by (simp_all add: isDigit_def)

lemma digit_not_special:
  assumes "isDigit c"
  shows "c \<noteq> CHR ''.''" "c \<noteq> CHR ''-''" "c \<noteq> CHR ''+''" "c \<noteq> CHR ''I''" "\<not> isWhite c"
  using assms by (auto simp: isDigit_def isWhite_def)

lemma show_nat_digits: "list_all isDigit (show_nat n)"
proof (induction n rule: show_nat.induct)
  case (1 n)
  show ?case
  proof (cases "n < 10")
    case True
    then show ?thesis by (simp add: show_nat_small digit_char_isDigit)
  next
    case False
    then have "show_nat n = show_nat (n div 10) @ [digit_char (n mod 10)]"
      by (subst show_nat.simps) simp
    with False 1 show ?thesis by (simp add: digit_char_isDigit)
  qed
qed

lemma show_nat_nonempty: "show_nat n \<noteq> []"
  by (subst show_nat.simps) simp

lemma digits_val_snoc: "digits_val (xs @ [c]) = 10 * digits_val xs + digit_val c"
  by (simp add: digits_val_def)

lemma digits_val_show_nat: "digits_val (show_nat n) = n"
proof (induction n rule: show_nat.induct)
  case (1 n)
  show ?case
  proof (cases "n < 10")
    case True
    then show ?thesis by (simp add: show_nat_small digits_val_def digit_val_digit_char)
  next
    case False
    then have "show_nat n = show_nat (n div 10) @ [digit_char (n mod 10)]"
      by (subst show_nat.simps) simp
    with False 1 show ?thesis by (simp add: digits_val_snoc digit_val_digit_char)
  qed
qed

lemma digits_val_zeros: "digits_val (replicate j (CHR ''0'') @ xs) = digits_val xs"
  by (induction j) (simp_all add: digits_val_def digit_val_def)

lemma pos_digits_shape:
  "\<exists>ip fp. pos_digits n k = ip @ (if k = 0 then [] else CHR ''.'' # fp) \<and> ip \<noteq> []
     \<and> length fp = k \<and> list_all isDigit ip \<and> list_all isDigit fp \<and> digits_val (ip @ fp) = n"
proof -
  define p where "p = replicate (Suc k - length (show_nat n)) (CHR ''0'') @ show_nat n"
  define j where "j = length p - k"
  have len: "length p \<ge> Suc k" by (simp add: p_def)
  have "isDigit (CHR ''0'')" by (simp add: isDigit_def)
  with show_nat_digits [of n] have dig: "list_all isDigit p"
    by (auto simp: p_def list_all_iff)
  have val: "digits_val p = n" by (simp add: p_def digits_val_zeros digits_val_show_nat)
  have eq: "pos_digits n k = take j p @ (if k = 0 then [] else CHR ''.'' # drop j p)"
    by (simp add: pos_digits_def p_def j_def Let_def)
  from len have "take j p \<noteq> []" "length (drop j p) = k" by (auto simp: j_def)
  moreover from dig have "list_all isDigit (take j p)" "list_all isDigit (drop j p)"
    by (auto simp: list_all_iff dest: in_set_takeD in_set_dropD)
  moreover have "digits_val (take j p @ drop j p) = n" using val by simp
  ultimately show ?thesis using eq by blast
qed

lemma two_decimal_shape:
  assumes "ip \<noteq> []" "list_all isDigit ip" "list_all isDigit fp" "length fp = 2"
  shows "two_decimal (ip @ CHR ''.'' # fp)" "two_decimal (CHR ''-'' # ip @ CHR ''.'' # fp)"
proof -
  from assms obtain c t where ip: "ip = c # t" "isDigit c" by (cases ip) auto
  then have c: "c \<noteq> CHR ''-''" by (simp add: digit_not_special)
  have tw: "takeWhile isDigit (ip @ CHR ''.'' # fp) = ip"
    using assms by (simp add: list_all_iff)
  have dw: "dropWhile isDigit (ip @ CHR ''.'' # fp) = CHR ''.'' # fp"
    using assms by (simp add: list_all_iff)
  show "two_decimal (CHR ''-'' # ip @ CHR ''.'' # fp)"
    using assms tw dw by (simp add: two_decimal_def)
  have "(case ip @ CHR ''.'' # fp of [] \<Rightarrow> ip @ CHR ''.'' # fp | c # t \<Rightarrow> if c = CHR ''-'' then t else ip @ CHR ''.'' # fp)
     = ip @ CHR ''.'' # fp"
    using ip c by simp
  then show "two_decimal (ip @ CHR ''.'' # fp)"
    using assms tw dw by (simp add: two_decimal_def Let_def)
qed

lemma toFixed2_two_decimal:
  assumes "\<bar>m\<bar> < 10 ^ 21 * 10 ^ k"
  shows "two_decimal (toFixed2 (Fin m k))"
proof -
  obtain ip fp where s: "pos_digits ((200 * nat \<bar>m\<bar> + 10 ^ k) div (2 * 10 ^ k)) 2 = ip @ CHR ''.'' # fp"
    "ip \<noteq> []" "length fp = 2" "list_all isDigit ip" "list_all isDigit fp"
    using pos_digits_shape [of "(200 * nat \<bar>m\<bar> + 10 ^ k) div (2 * 10 ^ k)" 2] by auto
  from assms s two_decimal_shape [of ip fp] show ?thesis by simp
qed


subsection \<open>Printing a number and reading it back\<close>

lemma norm_pair_idem: "norm_pair m k = (m', k') \<Longrightarrow> norm_pair m' k' = (m', k')"
  by (induction k arbitrary: m) (auto split: if_splits)

lemma neg_div10:
  assumes "(m::int) mod 10 = 0"
  shows "(- m) mod 10 = 0" "(- m) div 10 = - (m div 10)"
proof -
  from assms obtain q where "m = 10 * q" by (auto simp: mod_eq_0_iff_dvd)
  then show "(- m) mod 10 = 0" "(- m) div 10 = - (m div 10)" by simp_all
qed

lemma neg_mod10: "(m::int) mod 10 \<noteq> 0 \<Longrightarrow> (- m) mod 10 \<noteq> 0"
  by (simp add: mod_eq_0_iff_dvd)

lemma norm_pair_neg: "norm_pair m k = (m', k') \<Longrightarrow> norm_pair (- m) k = (- m', k')"
proof (induction k arbitrary: m)
  case 0
  then show ?case by simp
next
  case (Suc k)
  show ?case
  proof (cases "m mod 10 = 0")
    case True
    from True Suc.prems have "norm_pair (m div 10) k = (m', k')" by simp
    from Suc.IH [OF this] neg_div10 [OF True] show ?thesis by simp
  next
    case False
    from False Suc.prems have "m' = m" "k' = Suc k" by simp_all
    with neg_mod10 [OF False] show ?thesis by simp
  qed
qed

lemma is_norm_norm_dec: "is_norm (norm_dec m k)"
proof -
  obtain m' k' where n: "norm_pair m k = (m', k')" by (cases "norm_pair m k")
  from norm_pair_idem [OF n] n show ?thesis by (simp add: is_norm_def norm_dec_def)
qed

lemma is_norm_neg: "is_norm x \<Longrightarrow> is_norm (num_neg x)"
  by (cases x) (auto simp: is_norm_def dest: norm_pair_neg)

lemma is_norm_scale10: "is_norm (scale10 m k e)"
  by (simp add: scale10_def is_norm_norm_dec)

lemma is_norm_parse_dec_literal:
  assumes "parse_dec_literal s = Some (x, r)"
  shows "is_norm x"
proof -
  obtain neg u where sg: "split_sign s = (neg, u)" by (cases "split_sign s")
  show ?thesis
  proof (cases "take 8 u = ''Infinity''")
    case True
    with assms sg have "x = NInf \<or> x = PInf"
      by (auto simp: parse_dec_literal_def split: if_splits)
    then show ?thesis by (auto simp: is_norm_def)
  next
    case False
    show ?thesis
    proof (cases "parse_unsigned u")
      case None
      with assms sg False show ?thesis by (simp add: parse_dec_literal_def)
    next
      case (Some t)
      obtain m k r1 where t: "t = (m, k, r1)" by (cases t)
      obtain e r2 where pe: "parse_exponent r1 = (e, r2)" by (cases "parse_exponent r1")
      from assms sg False Some t pe have "x = scale10 (if neg then - m else m) k e"
        by (simp add: parse_dec_literal_def)
      then show ?thesis by (simp only: is_norm_scale10)
    qed
  qed
qed

lemma is_norm_parseFloat: "is_norm (parseFloat s)"
proof (cases "parse_dec_literal (trimStart s)")
  case None
  then show ?thesis by (simp add: parseFloat_def is_norm_def)
next
  case (Some t)
  obtain x r where "t = (x, r)" by (cases t)
  with Some is_norm_parse_dec_literal [of "trimStart s" x r] show ?thesis
    by (simp add: parseFloat_def)
qed

lemma parse_unsigned_printed:
  assumes "ip \<noteq> []" "list_all isDigit ip" "list_all isDigit fp"
  shows "parse_unsigned (ip @ (if length fp = 0 then [] else CHR ''.'' # fp))
     = Some (int (digits_val (ip @ fp)), length fp, [])"
proof (cases "fp = []")
  case True
  from assms have tw: "takeWhile isDigit ip = ip" and dw: "dropWhile isDigit ip = []"
    by (simp_all add: list_all_iff)
  show ?thesis unfolding parse_unsigned_def True
    by (simp add: tw dw Let_def assms(1))
next
  case False
  from assms have tw: "takeWhile isDigit (ip @ CHR ''.'' # fp) = ip"
    and dw: "dropWhile isDigit (ip @ CHR ''.'' # fp) = CHR ''.'' # fp"
    and tw': "takeWhile isDigit fp = fp" and dw': "dropWhile isDigit fp = []"
    by (simp_all add: list_all_iff)
  have "parse_unsigned (ip @ CHR ''.'' # fp) = Some (int (digits_val (ip @ fp)), length fp, [])"
    unfolding parse_unsigned_def by (simp add: tw dw tw' dw' Let_def assms(1))
  with False show ?thesis by simp
qed

lemma scale10_0: "scale10 m k 0 = norm_dec m k"
  by (simp add: scale10_def)

lemma parse_dec_literal_printed:
  assumes "ip \<noteq> []" "list_all isDigit ip" "list_all isDigit fp"
  defines "u \<equiv> ip @ (if length fp = 0 then [] else CHR ''.'' # fp)"
  shows "parse_dec_literal u = Some (norm_dec (int (digits_val (ip @ fp))) (length fp), [])"
    and "parse_dec_literal (CHR ''-'' # u)
           = Some (norm_dec (- int (digits_val (ip @ fp))) (length fp), [])"
proof -
  from assms obtain c t where ip: "ip = c # t" "isDigit c" by (cases ip) auto
  then have c: "c \<noteq> CHR ''-''" "c \<noteq> CHR ''+''" "c \<noteq> CHR ''I''"
    by (simp_all add: digit_not_special)
  have u: "u = c # (t @ (if length fp = 0 then [] else CHR ''.'' # fp))"
    by (simp add: u_def ip)
  have inf: "take 8 u \<noteq> ''Infinity''" using c by (simp add: u)
  have sg: "split_sign u = (False, u)" using c by (simp add: u split_sign_def)
  have sg': "split_sign (CHR ''-'' # u) = (True, u)" by (simp add: split_sign_def)
  have pu: "parse_unsigned u = Some (int (digits_val (ip @ fp)), length fp, [])"
    unfolding u_def using assms(1-3) by (rule parse_unsigned_printed)
  have pe: "parse_exponent [] = (0, [])" by (simp add: parse_exponent_def)
  show "parse_dec_literal u = Some (norm_dec (int (digits_val (ip @ fp))) (length fp), [])"
    using inf sg pu pe by (simp add: parse_dec_literal_def scale10_0)
  show "parse_dec_literal (CHR ''-'' # u)
           = Some (norm_dec (- int (digits_val (ip @ fp))) (length fp), [])"
    using inf sg' pu pe by (simp add: parse_dec_literal_def scale10_0)
qed

lemma trimStart_printed:
  assumes "ip \<noteq> []" "list_all isDigit ip"
  shows "trimStart (ip @ r) = ip @ r" "trimStart (CHR ''-'' # ip @ r) = CHR ''-'' # ip @ r"
proof -
  from assms obtain c t where ip: "ip = c # t" "isDigit c" by (cases ip) auto
  then have "\<not> isWhite c" by (simp add: digit_not_special)
  then show "trimStart (ip @ r) = ip @ r" by (simp add: trimStart_def ip)
  show "trimStart (CHR ''-'' # ip @ r) = CHR ''-'' # ip @ r"
    by (simp add: trimStart_def isWhite_def)
qed

lemma parseFloat_jsString_Fin: "parseFloat (jsString (Fin m k)) = norm_dec m k"
proof -
  obtain m' k' where n: "norm_pair m k = (m', k')" by (cases "norm_pair m k")
  obtain ip fp where s: "pos_digits (nat \<bar>m'\<bar>) k' = ip @ (if k' = 0 then [] else CHR ''.'' # fp)"
    "ip \<noteq> []" "length fp = k'" "list_all isDigit ip" "list_all isDigit fp"
    "digits_val (ip @ fp) = nat \<bar>m'\<bar>"
    using pos_digits_shape [of "nat \<bar>m'\<bar>" k'] by blast
  define r where "r = (if length fp = 0 then [] else CHR ''.'' # fp)"
  have pd: "pos_digits (nat \<bar>m'\<bar>) k' = ip @ r"
    using s by (simp add: r_def)
  from norm_pair_idem [OF n] have idem: "norm_dec m' k' = Fin m' k'"
    by (simp add: norm_dec_def)
  have tgt: "norm_dec m k = Fin m' k'" using n by (simp add: norm_dec_def)
  show ?thesis
  proof (cases "m' < 0")
    case True
    then have v: "- int (nat \<bar>m'\<bar>) = m'" by simp
    have "jsString (Fin m k) = CHR ''-'' # ip @ r" using True n pd by simp
    then have "parseFloat (jsString (Fin m k))
        = (case parse_dec_literal (CHR ''-'' # ip @ r) of None \<Rightarrow> NaN | Some (x, r) \<Rightarrow> x)"
      using trimStart_printed(2) [OF s(2,4), of r] by (simp only: parseFloat_def)
    also have "parse_dec_literal (CHR ''-'' # ip @ r) = Some (norm_dec m' k', [])"
      using parse_dec_literal_printed(2) [OF s(2,4,5)] s(3,6) v by (simp only: r_def)
    finally show ?thesis using idem tgt by simp
  next
    case False
    then have v: "int (nat \<bar>m'\<bar>) = m'" by simp
    have "jsString (Fin m k) = ip @ r" using False n pd by simp
    then have "parseFloat (jsString (Fin m k))
        = (case parse_dec_literal (ip @ r) of None \<Rightarrow> NaN | Some (x, r) \<Rightarrow> x)"
      using trimStart_printed(1) [OF s(2,4), of r] by (simp only: parseFloat_def)
    also have "parse_dec_literal (ip @ r) = Some (norm_dec m' k', [])"
      using parse_dec_literal_printed(1) [OF s(2,4,5)] s(3,6) v by (simp only: r_def)
    finally show ?thesis using idem tgt by simp
  qed
qed

lemma parseFloat_jsString:
  assumes "is_norm x"
  shows "parseFloat (jsString x) = x"
proof (cases x)
  case (Fin m k)
  with assms have "norm_dec m k = Fin m k" by (simp add: is_norm_def norm_dec_def)
  with parseFloat_jsString_Fin [of m k] Fin show ?thesis by (simp only:)
next
  case PInf
  then show ?thesis by (simp add: js_eval)
next
  case NInf
  then show ?thesis by (simp add: js_eval)
next
  case NaN
  then show ?thesis by (simp add: js_eval)
qed

lemma jsString_nonempty: "jsString x \<noteq> []"
proof (cases x)
  case (Fin m k)
  obtain m' k' where n: "norm_pair m k = (m', k')" by (cases "norm_pair m k")
  from pos_digits_shape [of "nat \<bar>m'\<bar>" k'] obtain ip r where
    "pos_digits (nat \<bar>m'\<bar>) k' = ip @ r" "ip \<noteq> []" by blast
  with Fin n show ?thesis by simp
qed simp_all

section \<open>Properties of the template table\<close>

lemma templates_distinct: "distinct (map fst STRUCTURE_TEMPLATES)"
  by (simp add: STRUCTURE_TEMPLATES_def)

lemma template_rows_length: "length (template_rows t) = length t"
  by (simp add: template_rows_def)

lemma template_rows_nth:
  assumes "i < length t"
  shows "template_rows t ! i = template_row (i + 1) (fst (t ! i)) (snd (t ! i))"
  using assms by (simp add: template_rows_def nth_enumerate_eq emptyRow_def template_row_def)

lemma template_rows_eval:
  "template_rows [] = []"
  "template_rows [a] = [template_row 1 (fst a) (snd a)]"
  "template_rows [a, b] = [template_row 1 (fst a) (snd a), template_row 2 (fst b) (snd b)]"
  "template_rows [a, b, c] =
     [template_row 1 (fst a) (snd a), template_row 2 (fst b) (snd b),
      template_row 3 (fst c) (snd c)]"
  "template_rows [a, b, c, d] =
     [template_row 1 (fst a) (snd a), template_row 2 (fst b) (snd b),
      template_row 3 (fst c) (snd c), template_row 4 (fst d) (snd d)]"
  by (simp_all add: template_rows_def emptyRow_def template_row_def show_nat_small digit_char_def
      split_beta)

lemma applyTemplate_absent:
  assumes "tag \<notin> set (map fst STRUCTURE_TEMPLATES)"
  shows "store_after s (applyTemplate tag s) = s"
proof -
  from assms have "map_of STRUCTURE_TEMPLATES tag = None"
    by (simp add: map_of_eq_None_iff)
  then show ?thesis by (simp add: applyTemplate_def)
qed

text \<open>
  C3. For every tag of the template table, \<open>applyTemplate\<close> replaces the pricing table by
  the rows of that tag's template, in the template's order (and records the tag as the
  structure type): row \<open>i\<close> is labelled \<open>Leg i\<close>, carries the option type and the signed ratio
  of the template's \<open>i\<close>-th entry, and has empty expiry, strike and quote fields. The tables
  of put spread, risk reversal, butterfly, put fly, call fly and iron condor are the ones
  the claim lists. For a tag that is not in the table the store is unchanged.
\<close>

theorem applyTemplate_canonical:
  "(\<forall>template. map_of STRUCTURE_TEMPLATES tag = Some template \<longrightarrow>
      applyTemplate tag s = Inr (s\<lparr>tableData := template_rows template, structureType := tag\<rparr>)
      \<and> length (template_rows template) = length template
      \<and> (\<forall>i < length template.
            template_rows template ! i
              = template_row (i + 1) (fst (template ! i)) (snd (template ! i))))
   \<and> (tag \<notin> set (map fst STRUCTURE_TEMPLATES) \<longrightarrow> store_after s (applyTemplate tag s) = s)
   \<and> tableData (store_after s (applyTemplate ''put_spread'' s))
        = [template_row 1 ''P'' (Fin 1 0), template_row 2 ''P'' (Fin (- 1) 0)]
   \<and> tableData (store_after s (applyTemplate ''risk_reversal'' s))
        = [template_row 1 ''P'' (Fin (- 1) 0), template_row 2 ''C'' (Fin 1 0)]
   \<and> tableData (store_after s (applyTemplate ''butterfly'' s))
        = [template_row 1 ''C'' (Fin 1 0), template_row 2 ''C'' (Fin (- 2) 0),
           template_row 3 ''C'' (Fin 1 0)]
   \<and> tableData (store_after s (applyTemplate ''put_fly'' s))
        = [template_row 1 ''P'' (Fin 1 0), template_row 2 ''P'' (Fin (- 2) 0),
           template_row 3 ''P'' (Fin 1 0)]
   \<and> tableData (store_after s (applyTemplate ''call_fly'' s))
        = [template_row 1 ''C'' (Fin 1 0), template_row 2 ''C'' (Fin (- 2) 0),
           template_row 3 ''C'' (Fin 1 0)]
   \<and> tableData (store_after s (applyTemplate ''iron_condor'' s))
        = [template_row 1 ''P'' (Fin 1 0), template_row 2 ''P'' (Fin (- 1) 0),
           template_row 3 ''C'' (Fin (- 1) 0), template_row 4 ''C'' (Fin 1 0)]"
proof -
  have general: "\<forall>template. map_of STRUCTURE_TEMPLATES tag = Some template \<longrightarrow>
      applyTemplate tag s = Inr (s\<lparr>tableData := template_rows template, structureType := tag\<rparr>)
      \<and> length (template_rows template) = length template
      \<and> (\<forall>i < length template.
            template_rows template ! i
              = template_row (i + 1) (fst (template ! i)) (snd (template ! i)))"
    by (simp add: applyTemplate_def template_rows_length template_rows_nth)
  have absent: "tag \<notin> set (map fst STRUCTURE_TEMPLATES) \<longrightarrow> store_after s (applyTemplate tag s) = s"
    using applyTemplate_absent by blast
  have ps: "tableData (store_after s (applyTemplate ''put_spread'' s))
        = [template_row 1 ''P'' (Fin 1 0), template_row 2 ''P'' (Fin (- 1) 0)]"
    by (simp add: applyTemplate_def STRUCTURE_TEMPLATES_def template_rows_eval)
  have rr: "tableData (store_after s (applyTemplate ''risk_reversal'' s))
        = [template_row 1 ''P'' (Fin (- 1) 0), template_row 2 ''C'' (Fin 1 0)]"
    by (simp add: applyTemplate_def STRUCTURE_TEMPLATES_def template_rows_eval)
  have bf: "tableData (store_after s (applyTemplate ''butterfly'' s))
        = [template_row 1 ''C'' (Fin 1 0), template_row 2 ''C'' (Fin (- 2) 0),
           template_row 3 ''C'' (Fin 1 0)]"
    by (simp add: applyTemplate_def STRUCTURE_TEMPLATES_def template_rows_eval)
  have pf: "tableData (store_after s (applyTemplate ''put_fly'' s))
        = [template_row 1 ''P'' (Fin 1 0), template_row 2 ''P'' (Fin (- 2) 0),
           template_row 3 ''P'' (Fin 1 0)]"
    by (simp add: applyTemplate_def STRUCTURE_TEMPLATES_def template_rows_eval)
  have cf: "tableData (store_after s (applyTemplate ''call_fly'' s))
        = [template_row 1 ''C'' (Fin 1 0), template_row 2 ''C'' (Fin (- 2) 0),
           template_row 3 ''C'' (Fin 1 0)]"
    by (simp add: applyTemplate_def STRUCTURE_TEMPLATES_def template_rows_eval)
  have ic: "tableData (store_after s (applyTemplate ''iron_condor'' s))
        = [template_row 1 ''P'' (Fin 1 0), template_row 2 ''P'' (Fin (- 1) 0),
           template_row 3 ''C'' (Fin (- 1) 0), template_row 4 ''C'' (Fin 1 0)]"
    by (simp add: applyTemplate_def STRUCTURE_TEMPLATES_def template_rows_eval)
  from general absent ps rr bf pf cf ic show ?thesis by blast
qed

theorem applyTemplate_canonical_witness:
  "map_of STRUCTURE_TEMPLATES ''collar'' = Some [(''P'', Fin 1 0), (''C'', Fin (- 1) 0)]
   \<and> applyTemplate ''collar'' initialState
       = Inr (initialState\<lparr>tableData := template_rows [(''P'', Fin 1 0), (''C'', Fin (- 1) 0)],
                           structureType := ''collar''\<rparr>)
   \<and> template_rows [(''P'', Fin 1 0), (''C'', Fin (- 1) 0)] ! 1 = template_row 2 ''C'' (Fin (- 1) 0)
   \<and> leg (template_row 2 ''C'' (Fin (- 1) 0)) = ''Leg 2''
   \<and> ''custom'' \<notin> set (map fst STRUCTURE_TEMPLATES)
   \<and> store_after initialState (applyTemplate ''custom'' initialState) = initialState
   \<and> ''constructor'' \<notin> set (map fst STRUCTURE_TEMPLATES)
   \<and> applyTemplate ''constructor'' initialState = Inl TypeError
   \<and> store_after initialState (applyTemplate ''constructor'' initialState) = initialState"
proof -
  have m: "map_of STRUCTURE_TEMPLATES ''collar'' = Some [(''P'', Fin 1 0), (''C'', Fin (- 1) 0)]"
    by (simp add: STRUCTURE_TEMPLATES_def)
  have a1: "''custom'' \<notin> set (map fst STRUCTURE_TEMPLATES)"
    by (simp add: STRUCTURE_TEMPLATES_def)
  have a2: "''constructor'' \<notin> set (map fst STRUCTURE_TEMPLATES)"
    by (simp add: STRUCTURE_TEMPLATES_def)
  have t: "applyTemplate ''constructor'' initialState = Inl TypeError"
    by (simp add: applyTemplate_def STRUCTURE_TEMPLATES_def objectPrototypeKeys_def)
  have l: "leg (template_row 2 ''C'' (Fin (- 1) 0)) = ''Leg 2''"
    by (simp add: template_row_def digit_char_def)
  from applyTemplate_canonical [of "''collar''" initialState] m
  have c: "applyTemplate ''collar'' initialState
       = Inr (initialState\<lparr>tableData := template_rows [(''P'', Fin 1 0), (''C'', Fin (- 1) 0)],
                           structureType := ''collar''\<rparr>)"
    and n: "\<forall>i < length [(''P'', Fin 1 0), (''C'', Fin (- 1) 0 :: jsnum)].
       template_rows [(''P'', Fin 1 0), (''C'', Fin (- 1) 0)] ! i
         = template_row (i + 1) (fst ([(''P'', Fin 1 0), (''C'', Fin (- 1) 0)] ! i))
             (snd ([(''P'', Fin 1 0), (''C'', Fin (- 1) 0)] ! i))"
    by blast+
  from n have r: "template_rows [(''P'', Fin 1 0), (''C'', Fin (- 1) 0)] ! 1
      = template_row 2 ''C'' (Fin (- 1) 0)"
    by (simp add: numeral_2_eq_2)
  from applyTemplate_canonical [of "''custom''" initialState] a1
  have u1: "store_after initialState (applyTemplate ''custom'' initialState) = initialState"
    by blast
  from applyTemplate_canonical [of "''constructor''" initialState] a2
  have u2: "store_after initialState (applyTemplate ''constructor'' initialState) = initialState"
    by blast
  from m c r l a1 u1 a2 t u2 show ?thesis by blast
qed

section \<open>Properties of Add Order\<close>

lemma printed_not_sentinel:
  assumes "ip \<noteq> []" "list_all isDigit ip"
  shows "ip @ r \<noteq> ''--''" "CHR ''-'' # ip @ r \<noteq> ''--''"
proof -
  from assms obtain c t where ip: "ip = c # t" "isDigit c" by (cases ip) auto
  then have "c \<noteq> CHR ''-''" by (simp add: digit_not_special)
  with ip show "ip @ r \<noteq> ''--''" "CHR ''-'' # ip @ r \<noteq> ''--''" by simp_all
qed

lemma signed_pos_digits_not_sentinel:
  "(if b then ''-'' else []) @ pos_digits n k \<noteq> ''--''"
proof -
  obtain ip r where "pos_digits n k = ip @ r" "ip \<noteq> []" "list_all isDigit ip"
    using pos_digits_shape [of n k] by blast
  with printed_not_sentinel [of ip r] show ?thesis by (cases b) simp_all
qed

lemma jsString_not_sentinel: "jsString x \<noteq> ''--''"
proof (cases x)
  case (Fin m k)
  obtain m' k' where "norm_pair m k = (m', k')" by (cases "norm_pair m k")
  with Fin signed_pos_digits_not_sentinel [of "m' < 0" "nat \<bar>m'\<bar>" k'] show ?thesis by simp
qed simp_all

lemma toFixed2_not_sentinel: "toFixed2 x \<noteq> ''--''"
proof (cases x)
  case (Fin m k)
  show ?thesis
  proof (cases "\<bar>m\<bar> \<ge> 10 ^ 21 * 10 ^ k")
    case True
    with Fin jsString_not_sentinel [of "Fin m k"] show ?thesis by (simp del: jsString.simps)
  next
    case False
    with Fin signed_pos_digits_not_sentinel [of "m < 0" "(200 * nat \<bar>m\<bar> + 10 ^ k) div (2 * 10 ^ k)" 2]
    show ?thesis by simp
  qed
qed simp_all

text \<open>
  C4. In the blotter record that Add Order builds, each of bid, mid, offer, bid size and
  offer size is the literal string \<open>--\<close> when the structure's field is unavailable
  (\<^verbatim>\<open>null\<close>), and only then; the record's fields are strings, so none is \<^verbatim>\<open>null\<close>, and
  \<open>--\<close> is not \<open>0.00\<close>. An available bid, mid or offer is written by \<^verbatim>\<open>toFixed(2)\<close>,
  which for a finite number below \<open>10^21\<close> in magnitude gives a string with exactly two
  decimals; an available size is written by \<^verbatim>\<open>String\<close>.
\<close>

theorem handleAdd_sentinel:
  assumes "handleAdd new_id now s = Some order"
  shows "\<exists>cs. currentStructure s = Some cs
     \<and> serialized toFixed2 (cs_bid cs) (o_bid order)
     \<and> serialized toFixed2 (cs_mid cs) (o_mid order)
     \<and> serialized toFixed2 (cs_offer cs) (o_offer order)
     \<and> serialized jsString (cs_bid_size cs) (o_bid_size order)
     \<and> serialized jsString (cs_offer_size cs) (o_offer_size order)
     \<and> ''--'' \<noteq> ''0.00''
     \<and> (\<forall>m k. \<bar>m\<bar> < 10 ^ 21 * 10 ^ k \<longrightarrow> two_decimal (toFixed2 (Fin m k)))"
proof -
  from assms obtain cs where cs: "currentStructure s = Some cs"
    by (auto simp: handleAdd_def split: option.splits)
  with assms have o:
    "o_bid order = (case cs_bid cs of Some x \<Rightarrow> toFixed2 x | None \<Rightarrow> ''--'')"
    "o_mid order = (case cs_mid cs of Some x \<Rightarrow> toFixed2 x | None \<Rightarrow> ''--'')"
    "o_offer order = (case cs_offer cs of Some x \<Rightarrow> toFixed2 x | None \<Rightarrow> ''--'')"
    "o_bid_size order = (case cs_bid_size cs of Some x \<Rightarrow> jsString x | None \<Rightarrow> ''--'')"
    "o_offer_size order = (case cs_offer_size cs of Some x \<Rightarrow> jsString x | None \<Rightarrow> ''--'')"
    by (auto simp: handleAdd_def)
  have b: "serialized toFixed2 (cs_bid cs) (o_bid order)"
    using toFixed2_not_sentinel
    by (cases "cs_bid cs") (simp_all add: serialized_def o(1) del: toFixed2.simps)
  have m: "serialized toFixed2 (cs_mid cs) (o_mid order)"
    using toFixed2_not_sentinel
    by (cases "cs_mid cs") (simp_all add: serialized_def o(2) del: toFixed2.simps)
  have f: "serialized toFixed2 (cs_offer cs) (o_offer order)"
    using toFixed2_not_sentinel
    by (cases "cs_offer cs") (simp_all add: serialized_def o(3) del: toFixed2.simps)
  have bs: "serialized jsString (cs_bid_size cs) (o_bid_size order)"
    using jsString_not_sentinel
    by (cases "cs_bid_size cs") (simp_all add: serialized_def o(4) del: jsString.simps)
  have os: "serialized jsString (cs_offer_size cs) (o_offer_size order)"
    using jsString_not_sentinel
    by (cases "cs_offer_size cs") (simp_all add: serialized_def o(5) del: jsString.simps)
  have z: "''--'' \<noteq> ''0.00''" by simp
  have t: "\<forall>m k. \<bar>m\<bar> < 10 ^ 21 * 10 ^ k \<longrightarrow> two_decimal (toFixed2 (Fin m k))"
    using toFixed2_two_decimal by blast
  show ?thesis
    by (intro exI [of _ cs] conjI) (rule cs b m f bs os z t)+
qed

theorem handleAdd_sentinel_witness:
  "\<exists>order. handleAdd ''id-1'' ''2026-01-05T10:00:00'' sample_state = Some order
     \<and> o_bid order = ''3.45'' \<and> two_decimal (o_bid order)
     \<and> o_mid order = ''--''
     \<and> o_offer order = ''3.60'' \<and> two_decimal (o_offer order)
     \<and> o_bid_size order = ''--''
     \<and> o_offer_size order = ''120''"
proof -
  have "\<exists>order. handleAdd ''id-1'' ''2026-01-05T10:00:00'' sample_state = Some order"
    by (simp add: handleAdd_def sample_state_def)
  then obtain order where h: "handleAdd ''id-1'' ''2026-01-05T10:00:00'' sample_state = Some order"
    by blast
  from handleAdd_sentinel [OF h] obtain cs where
    cs: "currentStructure sample_state = Some cs"
    and bid: "serialized toFixed2 (cs_bid cs) (o_bid order)"
    and mid: "serialized toFixed2 (cs_mid cs) (o_mid order)"
    and off: "serialized toFixed2 (cs_offer cs) (o_offer order)"
    and bsz: "serialized jsString (cs_bid_size cs) (o_bid_size order)"
    and osz: "serialized jsString (cs_offer_size cs) (o_offer_size order)"
    and two: "\<forall>m k. \<bar>m\<bar> < 10 ^ 21 * 10 ^ k \<longrightarrow> two_decimal (toFixed2 (Fin m k))"
    by blast
  from cs have c: "cs = sample_structure" by (simp add: sample_state_def)
  have v: "cs_bid cs = Some (Fin 345 2)" "cs_mid cs = None" "cs_offer cs = Some (Fin 36 1)"
    "cs_bid_size cs = None" "cs_offer_size cs = Some (Fin 120 0)"
    by (simp_all add: c sample_structure_def)
  have e: "toFixed2 (Fin 345 2) = ''3.45''" "toFixed2 (Fin 36 1) = ''3.60''"
    "jsString (Fin 120 0) = ''120''"
    by (simp_all add: js_eval)
  have r: "\<bar>345::int\<bar> < 10 ^ 21 * 10 ^ 2" "\<bar>36::int\<bar> < 10 ^ 21 * 10 ^ 1" by simp_all
  from two r have t: "two_decimal (toFixed2 (Fin 345 2))" "two_decimal (toFixed2 (Fin 36 1))"
    by blast+
  from bid v have 1: "o_bid order = toFixed2 (Fin 345 2)" by (simp add: serialized_def)
  from mid v have 3: "o_mid order = ''--''" by (simp add: serialized_def)
  from off v have 4: "o_offer order = toFixed2 (Fin 36 1)" by (simp add: serialized_def)
  from bsz v have 6: "o_bid_size order = ''--''" by (simp add: serialized_def)
  from osz v e have 7: "o_offer_size order = ''120''" by (simp add: serialized_def)
  from h 1 3 4 6 7 t e show ?thesis by (intro exI [of _ order]) (simp only:)
qed

section \<open>Properties of flipStructure\<close>

lemma num_neg_neg: "num_neg (num_neg x) = x"
  by (cases x) simp_all

lemma num_is0_neg: "num_is0 (num_neg x) = num_is0 x"
  by (cases x) simp_all

lemma num_neg_zero: "num_is0 x \<Longrightarrow> num_neg x = x"
  by (cases x) simp_all

lemma flipRow_other_fields: "(flipRow r)\<lparr>ratio := v\<rparr> = r\<lparr>ratio := v\<rparr>"
  by (simp add: flipRow_def)

lemma flipRow_leg: "leg (flipRow r) = leg r"
  by (simp add: flipRow_def)

lemma flipRow_twice_value: "toNumber (ratio (flipRow (flipRow r))) = toNumber (ratio r)"
proof (cases "startsWith (leg r) ''Leg'' \<and> ratio_set (ratio r)")
  case False
  then have "flipRow r = r" by (auto simp: flipRow_def)
  then show ?thesis by simp
next
  case True
  define x where "x = toNumber (ratio r)"
  from True have r1: "flipRow r = r\<lparr>ratio := N (num_neg x)\<rparr>" by (simp add: flipRow_def x_def)
  show ?thesis
  proof (cases "num_is0 x")
    case z: True
    then have "flipRow (r\<lparr>ratio := N (num_neg x)\<rparr>) = r\<lparr>ratio := N (num_neg x)\<rparr>"
      by (simp add: flipRow_def num_is0_neg)
    then have "flipRow (flipRow r) = r\<lparr>ratio := N (num_neg x)\<rparr>"
      by (simp only: r1)
    with z show ?thesis by (simp add: num_neg_zero x_def)
  next
    case nz: False
    with True have "flipRow (r\<lparr>ratio := N (num_neg x)\<rparr>)
        = r\<lparr>ratio := N (num_neg (num_neg x))\<rparr>"
      by (simp add: flipRow_def num_is0_neg)
    then have "flipRow (flipRow r) = r\<lparr>ratio := N (num_neg (num_neg x))\<rparr>"
      by (simp only: r1)
    then show ?thesis by (simp add: num_neg_neg x_def)
  qed
qed

lemma flipRow_twice_number:
  assumes "ratio r = N x"
  shows "flipRow (flipRow r) = r"
proof -
  have "(flipRow (flipRow r))\<lparr>ratio := ratio r\<rparr> = r" by (simp add: flipRow_other_fields)
  moreover have "ratio (flipRow (flipRow r)) = ratio r"
  proof (cases "startsWith (leg r) ''Leg'' \<and> \<not> num_is0 x")
    case True
    with assms show ?thesis by (simp add: flipRow_def num_is0_neg num_neg_neg)
  next
    case False
    with assms have "flipRow r = r" by (auto simp: flipRow_def)
    then show ?thesis by simp
  qed
  ultimately show ?thesis by (metis LegRow.surjective LegRow.update_convs(5))
qed

lemma flip_delta_twice:
  "delta (flipStructure (flipStructure s))
     = (if delta s = [] then [] else jsString (parseFloat (delta s)))"
proof (cases "delta s = []")
  case True
  then show ?thesis by (simp add: flipStructure_def)
next
  case False
  have n: "is_norm (num_neg (parseFloat (delta s)))"
    by (simp add: is_norm_neg is_norm_parseFloat)
  from False have d1: "delta (flipStructure s) = jsString (num_neg (parseFloat (delta s)))"
    by (simp add: flipStructure_def)
  then have ne: "delta (flipStructure s) \<noteq> []" by (simp only: jsString_nonempty not_False_eq_True)
  have "parseFloat (delta (flipStructure s)) = num_neg (parseFloat (delta s))"
    by (simp only: d1 parseFloat_jsString [OF n])
  with ne have "delta (flipStructure (flipStructure s))
      = jsString (num_neg (num_neg (parseFloat (delta s))))"
    by (simp add: flipStructure_def [of "flipStructure s"] del: jsString.simps)
  with False show ?thesis by (simp add: num_neg_neg del: jsString.simps)
qed

lemma flipRow_flipped: "flipped_row r (flipRow r)"
proof -
  have "ratio r \<noteq> S [] \<and> \<not> num_is0 (toNumber (ratio r)) \<Longrightarrow> ratio_set (ratio r)"
    by (cases "ratio r") auto
  then show ?thesis by (auto simp: flipped_row_def flipRow_def)
qed

lemma flipRow_restored: "restored_row r (flipRow (flipRow r))"
  by (auto simp: restored_row_def flipRow_twice_value flipRow_other_fields flipRow_twice_number
      split: numstr.splits)

text \<open>
  C10. \<open>flipStructure\<close> negates the ratio of every leg row whose ratio is non-empty and not
  zero, leaves every other field of every row and every row that is no leg row unchanged,
  and replaces a non-empty delta by the string of its negation; no other part of the store
  changes. Two flips give every ratio its original numeric value and every other row
  field its original content, and give the delta its original numeric value (the very same
  string when the delta was a canonical numeric string). The statement is about the store
  as \<open>flipStructure\<close> writes it; the reprice that the action starts afterwards replaces the
  table by the server's response.
\<close>

theorem flipStructure_negates:
  "list_all2 flipped_row (tableData s) (tableData (flipStructure s))
   \<and> delta (flipStructure s)
       = (if delta s = [] then [] else jsString (num_neg (parseFloat (delta s))))
   \<and> (delta s \<noteq> [] \<longrightarrow> parseFloat (delta (flipStructure s)) = num_neg (parseFloat (delta s)))
   \<and> (flipStructure s)\<lparr>tableData := tableData s, delta := delta s\<rparr> = s
   \<and> list_all2 restored_row (tableData s) (tableData (flipStructure (flipStructure s)))
   \<and> parseFloat (delta (flipStructure (flipStructure s))) = parseFloat (delta s)
   \<and> (canonical_float (delta s) \<longrightarrow> delta (flipStructure (flipStructure s)) = delta s)"
proof -
  have 1: "list_all2 flipped_row (tableData s) (tableData (flipStructure s))"
    by (simp add: flipStructure_def list_all2_map2 list_all2_same flipRow_flipped)
  have 2: "delta (flipStructure s)
       = (if delta s = [] then [] else jsString (num_neg (parseFloat (delta s))))"
    by (simp add: flipStructure_def)
  have n: "is_norm (num_neg (parseFloat (delta s)))"
    by (simp add: is_norm_neg is_norm_parseFloat)
  have 3: "delta s \<noteq> [] \<longrightarrow> parseFloat (delta (flipStructure s)) = num_neg (parseFloat (delta s))"
    using parseFloat_jsString [OF n] by (simp add: 2)
  have 4: "(flipStructure s)\<lparr>tableData := tableData s, delta := delta s\<rparr> = s"
    by (simp add: flipStructure_def)
  have 5: "list_all2 restored_row (tableData s) (tableData (flipStructure (flipStructure s)))"
    by (simp add: flipStructure_def list_all2_map2 list_all2_same flipRow_restored)
  have 6: "parseFloat (delta (flipStructure (flipStructure s))) = parseFloat (delta s)"
    using parseFloat_jsString [OF is_norm_parseFloat, of "delta s"]
    by (simp add: flip_delta_twice del: jsString.simps)
  have 7: "canonical_float (delta s) \<longrightarrow> delta (flipStructure (flipStructure s)) = delta s"
    by (auto simp: flip_delta_twice canonical_float_def simp del: jsString.simps)
  from 1 2 3 4 5 6 7 show ?thesis by (intro conjI)
qed

theorem flipStructure_negates_witness:
  "tableData (flipStructure sample_state)
     = [quoted_row ''Leg 1'' ''Jun26'' (N (Fin 240 0)) ''P'' (N (Fin (- 1) 0)),
        quoted_row ''Leg 2'' ''Jun26'' (S ''220'') ''P'' (N (Fin 2 0)),
        quoted_row ''Structure'' [] (S []) [] (S [])]
   \<and> list_all2 flipped_row (tableData sample_state) (tableData (flipStructure sample_state))
   \<and> delta sample_state = ''15''
   \<and> delta (flipStructure sample_state) = ''-15''
   \<and> parseFloat (delta (flipStructure sample_state)) = Fin (- 15) 0
   \<and> list_all2 restored_row (tableData sample_state)
        (tableData (flipStructure (flipStructure sample_state)))
   \<and> canonical_float (delta sample_state)
   \<and> delta (flipStructure (flipStructure sample_state)) = ''15''"
proof -
  note t = flipStructure_negates [of sample_state]
  have d: "delta sample_state = ''15''" by (simp add: sample_state_def)
  have p: "parseFloat ''15'' = Fin 15 0" by (simp add: js_eval)
  have j: "jsString (Fin (- 15) 0) = ''-15''" "jsString (Fin 15 0) = ''15''"
    by (simp_all add: js_eval)
  have c: "canonical_float (delta sample_state)"
    by (simp only: canonical_float_def d p j)
  have n2: "stringToNumber ''-2'' = Fin (- 2) 0" by (simp add: js_eval)
  have rows: "tableData (flipStructure sample_state)
     = [quoted_row ''Leg 1'' ''Jun26'' (N (Fin 240 0)) ''P'' (N (Fin (- 1) 0)),
        quoted_row ''Leg 2'' ''Jun26'' (S ''220'') ''P'' (N (Fin 2 0)),
        quoted_row ''Structure'' [] (S []) [] (S [])]"
    by (simp add: flipStructure_def sample_state_def sample_rows_def flipRow_def quoted_row_def
        startsWith_def n2)
  from t have f1: "list_all2 flipped_row (tableData sample_state)
      (tableData (flipStructure sample_state))"
    by (elim conjE)
  from t have f2: "delta (flipStructure sample_state)
      = (if delta sample_state = [] then []
         else jsString (num_neg (parseFloat (delta sample_state))))"
    by (elim conjE)
  from t have f3: "delta sample_state \<noteq> [] \<longrightarrow>
      parseFloat (delta (flipStructure sample_state)) = num_neg (parseFloat (delta sample_state))"
    by (elim conjE)
  from t have f5: "list_all2 restored_row (tableData sample_state)
      (tableData (flipStructure (flipStructure sample_state)))"
    by (elim conjE)
  from t have f7: "canonical_float (delta sample_state) \<longrightarrow>
      delta (flipStructure (flipStructure sample_state)) = delta sample_state"
    by (elim conjE)
  from f2 have g2: "delta (flipStructure sample_state) = ''-15''"
    by (simp add: d p j del: jsString.simps)
  from f3 have g3: "parseFloat (delta (flipStructure sample_state)) = Fin (- 15) 0"
    by (simp add: d p)
  from f7 c have g7: "delta (flipStructure (flipStructure sample_state)) = ''15''"
    by (simp add: d)
  from rows f1 d g2 g3 f5 c g7 show ?thesis by (intro conjI)
qed

section \<open>Properties of repriceFromTable\<close>

lemma truthy_sign: "truthy x \<Longrightarrow> num_gt0 x \<longleftrightarrow> \<not> num_lt0 x"
  by (cases x) auto

lemma truthy_abs: "truthy x \<Longrightarrow> truthy (num_abs x)"
  by (cases x) auto

lemma legOfRow_Some:
  assumes "legOfRow row = Some l"
  shows "leg_matches_row row l"
proof -
  from assms have c: "trim (expiry row) \<noteq> []" "truthy (toNumber (strike row))"
    "trim (type row) \<noteq> []" "truthy (toNumber (ratio row))"
    by (auto simp: legOfRow_def Let_def split: if_splits)
  with assms have f: "l_side l = (if num_gt0 (toNumber (ratio row)) then ''buy'' else ''sell'')"
    "l_quantity l = num_abs (toNumber (ratio row))" "l_ratio l = num_abs (toNumber (ratio row))"
    by (auto simp: legOfRow_def Let_def split: if_splits option.splits)
  from c f truthy_sign [of "toNumber (ratio row)"] truthy_abs [of "toNumber (ratio row)"]
  show ?thesis by (auto simp: leg_matches_row_def)
qed

lemma legOfRow_incomplete: "row_incomplete row \<Longrightarrow> legOfRow row = None"
  by (auto simp: row_incomplete_def legOfRow_def Let_def)

lemma buildLegs_map_filter: "buildLegs rows = List.map_filter legOfRow rows"
  by (induction rows) (auto simp: List.map_filter_simps split: option.splits)

lemma buildLegs_origin:
  "l \<in> set (buildLegs rows) \<Longrightarrow> \<exists>row \<in> set rows. legOfRow row = Some l"
  by (induction rows) (auto split: option.splits)

text \<open>
  C8. The legs of the request that \<open>repriceFromTable\<close> sends are, in order, the legs of
  the table's leg rows that the loop does not skip. Each submitted leg comes from a leg row
  whose ratio is a number other than 0: its side is \<open>buy\<close> exactly when that ratio is
  positive and \<open>sell\<close> exactly when it is negative, its quantity and its ratio are the
  absolute value of the row's ratio, hence not 0. A row with a zero or missing ratio, or a
  missing expiry, strike or type, yields no leg.
\<close>

theorem repriceRequest_legs:
  "(\<forall>req. repriceRequest s = Some req \<longrightarrow>
      q_legs req
        = List.map_filter legOfRow (filter (\<lambda>r. startsWith (leg r) ''Leg'') (tableData s))
      \<and> list_all
          (\<lambda>l. \<exists>row \<in> set (tableData s).
                 startsWith (leg row) ''Leg'' \<and> legOfRow row = Some l \<and> leg_matches_row row l)
          (q_legs req))
   \<and> (\<forall>row l. legOfRow row = Some l \<longrightarrow> leg_matches_row row l)
   \<and> (\<forall>row. row_incomplete row \<longrightarrow> legOfRow row = None)"
proof -
  have sent: "q_legs req
        = List.map_filter legOfRow (filter (\<lambda>r. startsWith (leg r) ''Leg'') (tableData s))
      \<and> list_all
          (\<lambda>l. \<exists>row \<in> set (tableData s).
                 startsWith (leg row) ''Leg'' \<and> legOfRow row = Some l \<and> leg_matches_row row l)
          (q_legs req)"
    if r: "repriceRequest s = Some req" for req
  proof -
    from r have q: "q_legs req = buildLegs (filter (\<lambda>r. startsWith (leg r) ''Leg'') (tableData s))"
      by (auto simp: repriceRequest_def Let_def split: if_splits)
    have "\<exists>row \<in> set (tableData s).
        startsWith (leg row) ''Leg'' \<and> legOfRow row = Some l \<and> leg_matches_row row l"
      if "l \<in> set (q_legs req)" for l
    proof -
      from that q buildLegs_origin obtain row where
        "row \<in> set (filter (\<lambda>r. startsWith (leg r) ''Leg'') (tableData s))"
        "legOfRow row = Some l"
        by metis
      with legOfRow_Some show ?thesis by auto
    qed
    with q show ?thesis by (simp add: buildLegs_map_filter list_all_iff)
  qed
  from sent legOfRow_Some legOfRow_incomplete show ?thesis by blast
qed

theorem repriceRequest_legs_witness:
  "repriceRequest sample_state = Some sample_request
   \<and> list_all
       (\<lambda>l. \<exists>row \<in> set (tableData sample_state).
              startsWith (leg row) ''Leg'' \<and> legOfRow row = Some l \<and> leg_matches_row row l)
       (q_legs sample_request)
   \<and> legOfRow (quoted_row ''Leg 2'' ''Jun26'' (S ''220'') ''P'' (S ''-2''))
       = Some \<lparr>l_expiry = ''2026-06-16'', l_strike = Fin 220 0, l_option_type = ''put'',
               l_side = ''sell'', l_quantity = Fin 2 0, l_ratio = Fin 2 0\<rparr>
   \<and> leg_matches_row (quoted_row ''Leg 2'' ''Jun26'' (S ''220'') ''P'' (S ''-2''))
        \<lparr>l_expiry = ''2026-06-16'', l_strike = Fin 220 0, l_option_type = ''put'',
         l_side = ''sell'', l_quantity = Fin 2 0, l_ratio = Fin 2 0\<rparr>
   \<and> row_incomplete (quoted_row ''Leg 3'' ''Jun26'' (S ''200'') ''P'' (S ''0''))
   \<and> legOfRow (quoted_row ''Leg 3'' ''Jun26'' (S ''200'') ''P'' (S ''0'')) = None"
proof -
  note t = repriceRequest_legs [of sample_state]
  have l1: "legOfRow (quoted_row ''Leg 1'' ''Jun26'' (N (Fin 240 0)) ''P'' (N (Fin 1 0)))
     = Some \<lparr>l_expiry = ''2026-06-16'', l_strike = Fin 240 0, l_option_type = ''put'',
          l_side = ''buy'', l_quantity = Fin 1 0, l_ratio = Fin 1 0\<rparr>"
    by (simp add: legOfRow_def quoted_row_def monthMap_def js_eval)
  have l2: "legOfRow (quoted_row ''Leg 2'' ''Jun26'' (S ''220'') ''P'' (S ''-2''))
     = Some \<lparr>l_expiry = ''2026-06-16'', l_strike = Fin 220 0, l_option_type = ''put'',
          l_side = ''sell'', l_quantity = Fin 2 0, l_ratio = Fin 2 0\<rparr>"
    by (simp add: legOfRow_def quoted_row_def monthMap_def js_eval)
  have l3: "legOfRow (quoted_row ''Structure'' [] (S []) [] (S [])) = None"
    by (simp add: legOfRow_def quoted_row_def monthMap_def js_eval)
  have f: "filter (\<lambda>r. startsWith (leg r) ''Leg'') sample_rows
     = [quoted_row ''Leg 1'' ''Jun26'' (N (Fin 240 0)) ''P'' (N (Fin 1 0)),
        quoted_row ''Leg 2'' ''Jun26'' (S ''220'') ''P'' (S ''-2'')]"
    by (simp add: sample_rows_def quoted_row_def startsWith_def)
  have h: "parseFloat ''250'' = Fin 250 0" "parseFloat ''15'' = Fin 15 0"
    "parseFloat ''3.5'' = Fin 35 1" "parseInt ''500'' = Fin 500 0"
    "toUpperCase (trim ''AAPL'') = ''AAPL''" "trim ''AAPL'' \<noteq> []"
    "replaceAll (CHR ''_'') (CHR '' '') ''put_spread'' = ''put spread''"
    by (simp_all add: js_eval)
  have rq: "repriceRequest sample_state = Some sample_request"
    by (simp add: repriceRequest_def sample_state_def f l1 l2 h sample_request_def
        str_or_def num_or_def)
  from t rq have a: "list_all
       (\<lambda>l. \<exists>row \<in> set (tableData sample_state).
              startsWith (leg row) ''Leg'' \<and> legOfRow row = Some l \<and> leg_matches_row row l)
       (q_legs sample_request)"
    by blast
  from t l2 have m: "leg_matches_row (quoted_row ''Leg 2'' ''Jun26'' (S ''220'') ''P'' (S ''-2''))
        \<lparr>l_expiry = ''2026-06-16'', l_strike = Fin 220 0, l_option_type = ''put'',
         l_side = ''sell'', l_quantity = Fin 2 0, l_ratio = Fin 2 0\<rparr>"
    by blast
  have i: "row_incomplete (quoted_row ''Leg 3'' ''Jun26'' (S ''200'') ''P'' (S ''0''))"
    by (simp add: row_incomplete_def quoted_row_def js_eval)
  with t have n: "legOfRow (quoted_row ''Leg 3'' ''Jun26'' (S ''200'') ''P'' (S ''0'')) = None"
    by blast
  from rq a l2 m i n show ?thesis by (intro conjI)
qed

section \<open>Properties of parseAndPrice\<close>

text \<open>
  C6. When \<open>parseAndPrice\<close> fails (a blank order text, a rejected parse request or a
  rejected pricing request), the error message is in \<open>parseError\<close>, and the order text, the
  table, the toolbar fields, the header, the broker quote and the current structure are
  what they were before the call: nothing of a parsed order is applied. The whole store is
  the old one with the new message, and, except on a blank order text, with the table
  error cleared and the loading flag off.
\<close>

theorem parseAndPrice_failure:
  assumes "parse_failure parseOrder priceStructure s = Some msg"
  shows "parseError (parseAndPrice parseOrder priceStructure s) = msg
     \<and> same_order_fields s (parseAndPrice parseOrder priceStructure s)
     \<and> (parseAndPrice parseOrder priceStructure s = s\<lparr>parseError := msg\<rparr>
        \<or> parseAndPrice parseOrder priceStructure s
            = s\<lparr>loading := False, parseError := msg, tableError := []\<rparr>)"
proof (cases "trim (orderText s) = []")
  case True
  with assms have "msg = ''Please enter an order.''" by (simp add: parse_failure_def)
  with True have "parseAndPrice parseOrder priceStructure s = s\<lparr>parseError := msg\<rparr>"
    by (simp add: parseAndPrice_def)
  then show ?thesis by (simp add: same_order_fields_def)
next
  case False
  have "parseAndPrice parseOrder priceStructure s
      = s\<lparr>loading := False, parseError := msg, tableError := []\<rparr>"
  proof (cases "parseOrder (orderText s)")
    case (Inl e)
    with False assms have "e = msg" by (simp add: parse_failure_def)
    with False Inl show ?thesis by (simp add: parseAndPrice_def)
  next
    case (Inr parsed)
    with False assms obtain e where e: "priceStructure parsed = Inl e" "e = msg"
      by (cases "priceStructure parsed") (simp_all add: parse_failure_def)
    with False Inr show ?thesis by (simp add: parseAndPrice_def)
  qed
  then show ?thesis by (simp add: same_order_fields_def)
qed

theorem parseAndPrice_failure_witness:
  "parse_failure (\<lambda>t. Inl ''no underlying ticker found'') (\<lambda>p. Inl ''unused'') sample_state
     = Some ''no underlying ticker found''
   \<and> parseError
       (parseAndPrice (\<lambda>t. Inl ''no underlying ticker found'') (\<lambda>p. Inl ''unused'') sample_state)
       = ''no underlying ticker found''
   \<and> same_order_fields sample_state
       (parseAndPrice (\<lambda>t. Inl ''no underlying ticker found'') (\<lambda>p. Inl ''unused'') sample_state)
   \<and> parse_failure (\<lambda>t. Inr sample_parsed) (\<lambda>p. Inl ''no market data'') sample_state
       = Some ''no market data''
   \<and> parseError (parseAndPrice (\<lambda>t. Inr sample_parsed) (\<lambda>p. Inl ''no market data'') sample_state)
       = ''no market data''
   \<and> same_order_fields sample_state
       (parseAndPrice (\<lambda>t. Inr sample_parsed) (\<lambda>p. Inl ''no market data'') sample_state)
   \<and> underlying (parseAndPrice (\<lambda>t. Inr sample_parsed) (\<lambda>p. Inl ''no market data'') sample_state)
       = ''AAPL''
   \<and> parse_failure (\<lambda>t. Inr sample_parsed) (\<lambda>p. Inl ''unused'') initialState
       = Some ''Please enter an order.''
   \<and> parseAndPrice (\<lambda>t. Inr sample_parsed) (\<lambda>p. Inl ''unused'') initialState
       = initialState\<lparr>parseError := ''Please enter an order.''\<rparr>"
proof -
  have ne: "trim (orderText sample_state) \<noteq> []"
    by (simp add: sample_state_def trim_def isWhite_def)
  have e: "trim (orderText initialState) = []"
    by (simp add: initialState_def trim_def)
  have f1: "parse_failure (\<lambda>t. Inl ''no underlying ticker found'') (\<lambda>p. Inl ''unused'')
      sample_state = Some ''no underlying ticker found''"
    using ne by (simp add: parse_failure_def)
  have f2: "parse_failure (\<lambda>t. Inr sample_parsed) (\<lambda>p. Inl ''no market data'') sample_state
      = Some ''no market data''"
    using ne by (simp add: parse_failure_def)
  have f3: "parse_failure (\<lambda>t. Inr sample_parsed) (\<lambda>p. Inl ''unused'') initialState
      = Some ''Please enter an order.''"
    using e by (simp add: parse_failure_def)
  have u: "underlying sample_state = ''AAPL''" by (simp add: sample_state_def)
  note t1 = parseAndPrice_failure [OF f1]
  note t2 = parseAndPrice_failure [OF f2]
  from t1 have a1: "parseError
       (parseAndPrice (\<lambda>t. Inl ''no underlying ticker found'') (\<lambda>p. Inl ''unused'') sample_state)
       = ''no underlying ticker found''"
    by (elim conjE)
  from t1 have b1: "same_order_fields sample_state
       (parseAndPrice (\<lambda>t. Inl ''no underlying ticker found'') (\<lambda>p. Inl ''unused'') sample_state)"
    by (elim conjE)
  from t2 have a2: "parseError
       (parseAndPrice (\<lambda>t. Inr sample_parsed) (\<lambda>p. Inl ''no market data'') sample_state)
       = ''no market data''"
    by (elim conjE)
  from t2 have b2: "same_order_fields sample_state
       (parseAndPrice (\<lambda>t. Inr sample_parsed) (\<lambda>p. Inl ''no market data'') sample_state)"
    by (elim conjE)
  from b2 u have c2: "underlying
       (parseAndPrice (\<lambda>t. Inr sample_parsed) (\<lambda>p. Inl ''no market data'') sample_state) = ''AAPL''"
    by (simp add: same_order_fields_def)
  have a3: "parseAndPrice (\<lambda>t. Inr sample_parsed) (\<lambda>p. Inl ''unused'') initialState
       = initialState\<lparr>parseError := ''Please enter an order.''\<rparr>"
    using e by (simp add: parseAndPrice_def)
  show ?thesis
    by (intro conjI) (rule f1 a1 b1 f2 a2 b2 c2 f3 a3)+
qed

section \<open>The shape of the pricing table\<close>

lemma table_shape_no_structure:
  "list_all (\<lambda>r. \<not> is_structure_row r) rows \<Longrightarrow> table_shape rows"
  by (auto simp: table_shape_def list_all_iff dest: in_set_butlastD)

lemma table_shape_snoc:
  "list_all (\<lambda>r. \<not> is_structure_row r) rows \<Longrightarrow> table_shape (rows @ [r])"
  by (simp add: table_shape_def)

lemma filter_no_structure:
  "list_all (\<lambda>r. \<not> is_structure_row r) (filter (\<lambda>r. leg r \<noteq> ''Structure'') rows)"
  by (simp add: list_all_iff is_structure_row_def)

lemma table_shape_applyPriceResponse: "table_shape (tableData (applyPriceResponse res s))"
  by (cases "find (\<lambda>r. leg r = ''Structure'') (table_data res)")
    (simp_all add: applyPriceResponse_def table_shape_snoc table_shape_no_structure
      filter_no_structure)

lemma leg_rows_applyPriceResponse:
  "leg_rows (tableData (applyPriceResponse res s)) = leg_rows (table_data res)"
proof (cases "find (\<lambda>r. leg r = ''Structure'') (table_data res)")
  case None
  then show ?thesis
    by (simp add: applyPriceResponse_def leg_rows_def is_structure_row_def)
next
  case (Some r)
  then have "leg r = ''Structure''" by (auto simp: find_Some_iff)
  with Some show ?thesis
    by (simp add: applyPriceResponse_def leg_rows_def is_structure_row_def)
qed

lemma table_shape_parseAndPrice:
  "table_shape (tableData s) \<Longrightarrow> table_shape (tableData (parseAndPrice po ps s))"
  by (auto simp: parseAndPrice_def Let_def table_shape_applyPriceResponse split: sum.splits)

lemma table_shape_repriceFromTable:
  "table_shape (tableData s) \<Longrightarrow> table_shape (tableData (repriceFromTable pf s))"
  by (auto simp: repriceFromTable_def Let_def table_shape_applyPriceResponse
      split: sum.splits option.splits)

lemma emptyRow_no_structure: "\<not> is_structure_row (emptyRow i)"
  by (simp add: is_structure_row_def emptyRow_def)

lemma template_rows_no_structure: "list_all (\<lambda>r. \<not> is_structure_row r) (template_rows t)"
  by (auto simp: list_all_iff template_rows_def is_structure_row_def emptyRow_def)

lemma table_shape_applyTemplate:
  "table_shape (tableData s) \<Longrightarrow> table_shape (tableData (store_after s (applyTemplate tag s)))"
  by (auto simp: applyTemplate_def table_shape_no_structure template_rows_no_structure
      split: option.splits)

lemma table_shape_addRow: "table_shape (tableData (addRow s))"
  by (simp add: addRow_def Let_def table_shape_snoc filter_no_structure)

lemma table_shape_removeRow: "table_shape (tableData (removeRow s))"
proof -
  have "list_all (\<lambda>r. \<not> is_structure_row r)
      (butlast (filter (\<lambda>r. leg r \<noteq> ''Structure'') (tableData s)))"
    using filter_no_structure [of "tableData s"]
    by (auto simp: list_all_iff dest: in_set_butlastD)
  then show ?thesis
    by (simp add: removeRow_def Let_def table_shape_no_structure filter_no_structure)
qed

lemma flipRow_structure: "is_structure_row (flipRow r) = is_structure_row r"
  by (simp add: is_structure_row_def flipRow_def)

lemma table_shape_flipStructure:
  "table_shape (tableData s) \<Longrightarrow> table_shape (tableData (flipStructure s))"
  by (simp add: flipStructure_def table_shape_def map_butlast [symmetric] list_all_iff
      flipRow_structure)

lemma table_shape_flipStructure_repriced:
  "table_shape (tableData s) \<Longrightarrow> table_shape (tableData (flipStructure_repriced pf s))"
  by (simp add: flipStructure_repriced_def table_shape_flipStructure
      table_shape_repriceFromTable)

lemma table_shape_clearAll: "table_shape (tableData (clearAll s))"
  by (simp add: clearAll_def table_shape_def emptyRow_no_structure)

lemma table_shape_recallOrder:
  assumes "table_shape (tableData s)" "saved_table_ok (RecallOrder order)"
  shows "table_shape (tableData (recallOrder order s))"
  using assms by (cases "rc_table_data order") (simp_all add: recallOrder_def saved_table_ok_def)

lemma table_shape_words:
  "table_shape rows \<longleftrightarrow>
     length (filter is_structure_row rows) \<le> 1
     \<and> (\<forall>i < length rows. is_structure_row (rows ! i) \<longrightarrow> Suc i = length rows)"
proof (cases rows rule: rev_cases)
  case Nil
  then show ?thesis by (simp add: table_shape_def)
next
  case (snoc ys y)
  show ?thesis
  proof
    assume "table_shape rows"
    with snoc have ys: "\<forall>r \<in> set ys. \<not> is_structure_row r"
      by (simp add: table_shape_def list_all_iff)
    then have "filter is_structure_row ys = []" by (simp add: filter_empty_conv)
    moreover have "Suc i = length rows" if "i < length rows" "is_structure_row (rows ! i)" for i
    proof (rule ccontr)
      assume "Suc i \<noteq> length rows"
      with that snoc have "i < length ys" by simp
      with that snoc ys show False by (simp add: nth_append)
    qed
    ultimately show "length (filter is_structure_row rows) \<le> 1
        \<and> (\<forall>i < length rows. is_structure_row (rows ! i) \<longrightarrow> Suc i = length rows)"
      using snoc by simp
  next
    assume a: "length (filter is_structure_row rows) \<le> 1
        \<and> (\<forall>i < length rows. is_structure_row (rows ! i) \<longrightarrow> Suc i = length rows)"
    have "\<not> is_structure_row r" if "r \<in> set ys" for r
    proof
      assume s: "is_structure_row r"
      from that obtain i where i: "i < length ys" "ys ! i = r" by (auto simp: in_set_conv_nth)
      with snoc s have "i < length rows" "is_structure_row (rows ! i)" by (simp_all add: nth_append)
      with a have "Suc i = length rows" by blast
      with i snoc show False by simp
    qed
    with snoc show "table_shape rows" by (simp add: table_shape_def list_all_iff)
  qed
qed


text \<open>
  C9 (amended). Every action of the pricer store other than \<open>recallOrder\<close> preserves the
  shape of the pricing table: at most one row labelled \<open>Structure\<close>, and that row last.
  \<open>recallOrder\<close> installs the table saved in the recalled order as it is, so it preserves
  the shape when that saved table has it, as every table that Add Order saves from a state
  with the shape does. \<open>applyPriceResponse\<close> keeps the leg rows in the order in which the
  price response lists them.
\<close>

theorem table_shape_preserved:
  assumes "table_shape (tableData s)" and "saved_table_ok a"
  shows "table_shape (tableData (dispatch api a s))
     \<and> table_shape (tableData (flipStructure s))
     \<and> (\<forall>res. leg_rows (tableData (applyPriceResponse res s)) = leg_rows (table_data res))
     \<and> (\<forall>new_id now order. handleAdd new_id now s = Some order \<longrightarrow>
           saved_table_ok (RecallOrder order))
     \<and> (\<forall>rows. table_shape rows \<longleftrightarrow>
           length (filter is_structure_row rows) \<le> 1
           \<and> (\<forall>i < length rows. is_structure_row (rows ! i) \<longrightarrow> Suc i = length rows))"
proof -
  have step: "table_shape (tableData (dispatch api a s))"
  proof (cases a)
    case (SetOrderText t)
    with assms show ?thesis by (simp add: setOrderText_def)
  next
    case (SetToolbarField f v)
    with assms show ?thesis by (simp add: setToolbarField_def)
  next
    case ParseAndPrice
    with assms show ?thesis by (simp add: table_shape_parseAndPrice)
  next
    case RepriceFromTable
    with assms show ?thesis by (simp add: table_shape_repriceFromTable)
  next
    case (ApplyPriceResponse res)
    then show ?thesis by (simp add: table_shape_applyPriceResponse)
  next
    case (ApplyTemplate t)
    with assms show ?thesis by (simp add: table_shape_applyTemplate)
  next
    case AddRow
    then show ?thesis by (simp add: table_shape_addRow)
  next
    case RemoveRow
    then show ?thesis by (simp add: table_shape_removeRow)
  next
    case FlipStructure
    with assms show ?thesis by (simp add: table_shape_flipStructure_repriced)
  next
    case ClearAll
    then show ?thesis by (simp add: table_shape_clearAll)
  next
    case (RecallOrder order)
    with assms show ?thesis by (simp add: table_shape_recallOrder)
  qed
  have flip: "table_shape (tableData (flipStructure s))"
    using assms(1) by (rule table_shape_flipStructure)
  have order: "\<forall>res. leg_rows (tableData (applyPriceResponse res s)) = leg_rows (table_data res)"
    by (simp add: leg_rows_applyPriceResponse)
  have saved: "\<forall>new_id now order. handleAdd new_id now s = Some order \<longrightarrow>
      saved_table_ok (RecallOrder order)"
    using assms(1) by (auto simp: handleAdd_def saved_table_ok_def split: option.splits)
  have words: "\<forall>rows. table_shape rows \<longleftrightarrow>
      length (filter is_structure_row rows) \<le> 1
      \<and> (\<forall>i < length rows. is_structure_row (rows ! i) \<longrightarrow> Suc i = length rows)"
    using table_shape_words by blast
  show ?thesis
    by (intro conjI) (rule step flip order saved words)+
qed

theorem table_shape_preserved_witness:
  "table_shape (tableData sample_state)
   \<and> saved_table_ok (ApplyPriceResponse sample_response)
   \<and> tableData (dispatch sample_api (ApplyPriceResponse sample_response) sample_state)
       = [quoted_row ''Leg 1'' ''Jun26'' (N (Fin 400 0)) ''C'' (N (Fin 1 0)),
          quoted_row ''Leg 2'' ''Jun26'' (N (Fin 420 0)) ''C'' (N (Fin (- 1) 0)),
          quoted_row ''Structure'' [] (S []) [] (S [])]
   \<and> table_shape (tableData (dispatch sample_api (ApplyPriceResponse sample_response) sample_state))
   \<and> saved_table_ok (RecallOrder (blank_order\<lparr>rc_table_data := Some sample_rows\<rparr>))
   \<and> tableData (dispatch sample_api (RecallOrder (blank_order\<lparr>rc_table_data := Some sample_rows\<rparr>))
        sample_state) = sample_rows
   \<and> table_shape (tableData
        (dispatch sample_api (RecallOrder (blank_order\<lparr>rc_table_data := Some sample_rows\<rparr>))
           sample_state))"
proof -
  have sr: "table_shape sample_rows"
    by (simp add: table_shape_def sample_rows_def is_structure_row_def quoted_row_def)
  then have i: "table_shape (tableData sample_state)" by (simp add: sample_state_def)
  have o1: "saved_table_ok (ApplyPriceResponse sample_response)"
    by (simp add: saved_table_ok_def)
  have o2: "saved_table_ok (RecallOrder (blank_order\<lparr>rc_table_data := Some sample_rows\<rparr>))"
    using sr by (simp add: saved_table_ok_def)
  have r1: "tableData (dispatch sample_api (ApplyPriceResponse sample_response) sample_state)
       = [quoted_row ''Leg 1'' ''Jun26'' (N (Fin 400 0)) ''C'' (N (Fin 1 0)),
          quoted_row ''Leg 2'' ''Jun26'' (N (Fin 420 0)) ''C'' (N (Fin (- 1) 0)),
          quoted_row ''Structure'' [] (S []) [] (S [])]"
    by (simp add: applyPriceResponse_def sample_response_def quoted_row_def)
  have r2: "tableData (dispatch sample_api (RecallOrder (blank_order\<lparr>rc_table_data := Some sample_rows\<rparr>))
        sample_state) = sample_rows"
    by (simp add: recallOrder_def)
  from table_shape_preserved [OF i o1, of sample_api]
  have p1: "table_shape (tableData (dispatch sample_api (ApplyPriceResponse sample_response) sample_state))"
    by (elim conjE)
  from table_shape_preserved [OF i o2, of sample_api]
  have p2: "table_shape (tableData
        (dispatch sample_api (RecallOrder (blank_order\<lparr>rc_table_data := Some sample_rows\<rparr>))
           sample_state))"
    by (elim conjE)
  show ?thesis
    by (intro conjI) (rule i o1 r1 p1 o2 r2 p2)+
qed

text \<open>
  C9 as stated fails for \<open>recallOrder\<close>: recalling an order whose saved table lists the
  structure row first puts that table into the store.
\<close>

theorem table_shape_preserved_counterexample:
  "table_shape (tableData initialState)
   \<and> tableData (dispatch sample_api (RecallOrder misordered_order) initialState)
       = [quoted_row ''Structure'' [] (S []) [] (S []),
          quoted_row ''Leg 1'' ''Jun26'' (N (Fin 400 0)) ''C'' (N (Fin 1 0))]
   \<and> \<not> table_shape (tableData (dispatch sample_api (RecallOrder misordered_order) initialState))"
proof -
  have i: "table_shape (tableData initialState)"
    by (simp add: initialState_def table_shape_def emptyRow_no_structure)
  have r: "tableData (dispatch sample_api (RecallOrder misordered_order) initialState)
       = [quoted_row ''Structure'' [] (S []) [] (S []),
          quoted_row ''Leg 1'' ''Jun26'' (N (Fin 400 0)) ''C'' (N (Fin 1 0))]"
    by (simp add: recallOrder_def misordered_order_def)
  have n: "\<not> table_shape [quoted_row ''Structure'' [] (S []) [] (S []),
          quoted_row ''Leg 1'' ''Jun26'' (N (Fin 400 0)) ''C'' (N (Fin 1 0))]"
    by (simp add: table_shape_def is_structure_row_def quoted_row_def)
  from i r n show ?thesis by simp
qed

section \<open>Add Order, then recall\<close>

lemma parse_empty: "parseFloat [] = NaN" "parseInt [] = NaN"
  by (simp_all add: js_eval)

lemma recalled_float:
  "opt_string (num_or_undefined (parseFloat v)) = v \<longleftrightarrow> float_field_stable v"
proof (cases "truthy (parseFloat v)")
  case True
  then have "v \<noteq> []" by (auto simp: parse_empty)
  with True show ?thesis
    by (simp add: opt_string_def num_or_undefined_def float_field_stable_def del: jsString.simps)
next
  case False
  then show ?thesis
    by (auto simp: opt_string_def num_or_undefined_def float_field_stable_def)
qed

lemma recalled_int:
  "opt_string (num_or_undefined (parseInt v)) = v \<longleftrightarrow> int_field_stable v"
proof (cases "truthy (parseInt v)")
  case True
  then have "v \<noteq> []" by (auto simp: parse_empty)
  with True show ?thesis
    by (simp add: opt_string_def num_or_undefined_def int_field_stable_def del: jsString.simps)
next
  case False
  then show ?thesis
    by (auto simp: opt_string_def num_or_undefined_def int_field_stable_def)
qed

lemma recalled_side: "opt_str_or (Some v) ''bid'' = v \<longleftrightarrow> v \<noteq> []"
  by (auto simp: opt_str_or_def str_or_def)

lemma recalled_text: "opt_str_or (Some v) [] = v"
  by (simp add: opt_str_or_def str_or_def)

lemma add_then_recall_fields:
  assumes "currentStructure s = Some cs"
  shows "\<exists>r. add_then_recall new_id now s s' = Some r
     \<and> tableData r = tableData s \<and> underlying r = underlying s
     \<and> structureType r = structureType s
     \<and> stockRef r = opt_string (num_or_undefined (parseFloat (stockRef s)))
     \<and> delta r = opt_string (num_or_undefined (parseFloat (delta s)))
     \<and> brokerPrice r = opt_string (num_or_undefined (parseFloat (brokerPrice s)))
     \<and> quoteSide r = opt_str_or (Some (quoteSide s)) ''bid''
     \<and> quantity r = opt_string (num_or_undefined (parseInt (quantity s)))
     \<and> currentStructure r = currentStructure s
     \<and> orderText r = orderText s'"
  using assms
  by (simp add: add_then_recall_def handleAdd_def recallOrder_def recalled_text
      del: jsString.simps)


lemma add_then_recall_exact:
  assumes "currentStructure s \<noteq> None"
  shows "\<exists>r. add_then_recall new_id now s s' = Some r
     \<and> (same_recalled_fields s r \<longleftrightarrow> toolbar_stable s)
     \<and> orderText r = orderText s'"
proof -
  from assms obtain cs where "currentStructure s = Some cs" by auto
  from add_then_recall_fields [OF this, of new_id now s'] obtain r where
    r: "add_then_recall new_id now s s' = Some r"
    and f: "tableData r = tableData s" "underlying r = underlying s"
      "structureType r = structureType s"
      "stockRef r = opt_string (num_or_undefined (parseFloat (stockRef s)))"
      "delta r = opt_string (num_or_undefined (parseFloat (delta s)))"
      "brokerPrice r = opt_string (num_or_undefined (parseFloat (brokerPrice s)))"
      "quoteSide r = opt_str_or (Some (quoteSide s)) ''bid''"
      "quantity r = opt_string (num_or_undefined (parseInt (quantity s)))"
      "currentStructure r = currentStructure s"
      "orderText r = orderText s'"
    by blast
  have "same_recalled_fields s r \<longleftrightarrow> toolbar_stable s"
    by (simp only: same_recalled_fields_def toolbar_stable_def f recalled_float recalled_int
        recalled_side simp_thms) blast
  with r f(10) show ?thesis by blast
qed

lemma sample_stable:
  "float_field_stable ''250''" "float_field_stable ''15''" "float_field_stable ''3.5''"
  "int_field_stable ''500''"
  by (simp_all add: float_field_stable_def int_field_stable_def js_eval)

text \<open>
  C5 (amended). For every pricer state with a current structure whose stock reference,
  delta and broker price are each empty or the canonical string of a number other than 0,
  whose quantity is empty or the canonical string of an integer other than 0, and whose
  quote side is not empty, adding the structure to the blotter and recalling that order
  restores the same table rows, underlying, structure type, stock reference, delta, broker
  price, quote side, quantity and current structure; the order text is not touched, so
  nothing is parsed again.
\<close>

theorem add_then_recall_restores:
  assumes "currentStructure s \<noteq> None" and "toolbar_stable s"
  shows "\<exists>r. add_then_recall new_id now s s' = Some r
     \<and> same_recalled_fields s r
     \<and> orderText r = orderText s'"
  using add_then_recall_exact [OF assms(1), of new_id now s'] assms(2) by blast

theorem add_then_recall_restores_witness:
  "currentStructure sample_state \<noteq> None
   \<and> toolbar_stable sample_state
   \<and> (\<exists>r. add_then_recall ''id-1'' ''2026-01-05T10:00:00'' sample_state initialState = Some r
        \<and> same_recalled_fields sample_state r
        \<and> tableData r = sample_rows \<and> underlying r = ''AAPL''
        \<and> structureType r = ''put_spread'' \<and> stockRef r = ''250'' \<and> delta r = ''15''
        \<and> brokerPrice r = ''3.5'' \<and> quoteSide r = ''bid'' \<and> quantity r = ''500''
        \<and> currentStructure r = Some sample_structure
        \<and> orderText r = [])"
proof -
  have c: "currentStructure sample_state \<noteq> None" by (simp add: sample_state_def)
  have t: "toolbar_stable sample_state"
    by (simp add: toolbar_stable_def sample_state_def sample_stable)
  from add_then_recall_restores [OF c t, of "''id-1''" "''2026-01-05T10:00:00''" initialState]
  obtain r where r: "add_then_recall ''id-1'' ''2026-01-05T10:00:00'' sample_state initialState = Some r"
    and f: "same_recalled_fields sample_state r" and o: "orderText r = orderText initialState"
    by blast
  from f have v: "tableData r = sample_rows" "underlying r = ''AAPL''"
    "structureType r = ''put_spread''" "stockRef r = ''250''" "delta r = ''15''"
    "brokerPrice r = ''3.5''" "quoteSide r = ''bid''" "quantity r = ''500''"
    "currentStructure r = Some sample_structure"
    by (simp_all add: same_recalled_fields_def sample_state_def)
  from o have e: "orderText r = []" by (simp add: initialState_def)
  from r f v e have "\<exists>r. add_then_recall ''id-1'' ''2026-01-05T10:00:00'' sample_state initialState = Some r
        \<and> same_recalled_fields sample_state r
        \<and> tableData r = sample_rows \<and> underlying r = ''AAPL''
        \<and> structureType r = ''put_spread'' \<and> stockRef r = ''250'' \<and> delta r = ''15''
        \<and> brokerPrice r = ''3.5'' \<and> quoteSide r = ''bid'' \<and> quantity r = ''500''
        \<and> currentStructure r = Some sample_structure
        \<and> orderText r = []"
    by (intro exI [of _ r]) (simp only: simp_thms)
  with c t show ?thesis by (intro conjI)
qed

text \<open>
  C5 as stated fails: with every toolbar field a canonical numeric string and the delta
  \<open>0\<close>, the order is saved without a delta (\<^verbatim>\<open>parseFloat(delta) || undefined\<close>) and the
  recalled delta is the empty string.
\<close>

theorem add_then_recall_restores_counterexample:
  "currentStructure zero_delta_state \<noteq> None
   \<and> canonical_float (stockRef zero_delta_state)
   \<and> canonical_float (delta zero_delta_state)
   \<and> canonical_float (brokerPrice zero_delta_state)
   \<and> canonical_int (quantity zero_delta_state)
   \<and> delta zero_delta_state = ''0''
   \<and> map_option delta
        (add_then_recall ''id-1'' ''2026-01-05T10:00:00'' zero_delta_state zero_delta_state)
       = Some []"
proof -
  have cs: "currentStructure zero_delta_state = Some sample_structure"
    by (simp add: zero_delta_state_def sample_state_def)
  then have c: "currentStructure zero_delta_state \<noteq> None" by simp
  have v: "stockRef zero_delta_state = ''250''" "delta zero_delta_state = ''0''"
    "brokerPrice zero_delta_state = ''3.5''" "quantity zero_delta_state = ''500''"
    by (simp_all add: zero_delta_state_def sample_state_def)
  have k: "canonical_float ''250''" "canonical_float ''0''" "canonical_float ''3.5''"
    "canonical_int ''500''"
    by (simp_all add: canonical_float_def canonical_int_def js_eval)
  have z: "opt_string (num_or_undefined (parseFloat ''0'')) = []"
    by (simp add: js_eval opt_string_def)
  from add_then_recall_fields [OF cs, of "''id-1''" "''2026-01-05T10:00:00''" zero_delta_state]
  obtain r where r: "add_then_recall ''id-1'' ''2026-01-05T10:00:00'' zero_delta_state
      zero_delta_state = Some r"
    and d: "delta r = opt_string (num_or_undefined (parseFloat (delta zero_delta_state)))"
    by blast
  from d have "delta r = []" by (simp only: v z)
  with r have m: "map_option delta
      (add_then_recall ''id-1'' ''2026-01-05T10:00:00'' zero_delta_state zero_delta_state) = Some []"
    by simp
  from c k v(2) m show ?thesis by (simp only: v simp_thms)
qed

end
